theory Spec2Isabelle
  imports Complex_Main
begin

section \<open>Identifier generation (src/src/data\_loader.py, generate\_record\_id)\<close>

text \<open>
  Python strings are modelled as \<open>string\<close>. The regular expression
  \<^verbatim>\<open>([A-Z]+)_(\d+)\<close> is applied with \<^verbatim>\<open>re.match\<close>: anchored at the start of the
  string, not at its end. Both groups are greedy and the character after the letters must
  be an underscore, which is no letter, so the only possible match takes the longest run
  of capital letters and then the longest run of digits. Identifiers are ASCII strings
  here, so a digit is one of the ten ASCII digits; Python's \<^verbatim>\<open>\d\<close> and \<^verbatim>\<open>int\<close> accept the
  decimal digits of other scripts as well, which no string of this model contains.
\<close>

definition is_upper :: "char \<Rightarrow> bool" where
  "is_upper c = (c \<in> set ''ABCDEFGHIJKLMNOPQRSTUVWXYZ'')"

definition is_digit :: "char \<Rightarrow> bool" where
  "is_digit c = (c \<in> set ''0123456789'')"

definition digit_char :: "nat \<Rightarrow> char" where
  "digit_char d = ''0123456789'' ! d"

text \<open>The value of an ASCII digit: its code point minus that of \<^verbatim>\<open>0\<close>.\<close>

definition digit_val :: "char \<Rightarrow> nat" where
  "digit_val c = of_char c - 48"

text \<open>\<^verbatim>\<open>str(n)\<close> for a natural number: its decimal digits, no padding.\<close>

fun str_of_nat :: "nat \<Rightarrow> string" where
  "str_of_nat n =
     (if n < 10 then [digit_char n] else str_of_nat (n div 10) @ [digit_char (n mod 10)])"

text \<open>\<^verbatim>\<open>int(num)\<close> on a string of digits (leading zeros are dropped by the value).\<close>

definition int_of_digits :: "string \<Rightarrow> nat" where
  "int_of_digits s = foldl (\<lambda>acc c. 10 * acc + digit_val c) 0 s"

text \<open>The format \<^verbatim>\<open>{num:04d}\<close>: zero-padded on the left to at least four characters.\<close>

definition zfill4 :: "string \<Rightarrow> string" where
  "zfill4 s = replicate (4 - length s) CHR ''0'' @ s"

text \<open>\<^verbatim>\<open>re.match(r'([A-Z]+)_(\d+)', base_id)\<close> and its two groups.\<close>

definition match_id :: "string \<Rightarrow> (string \<times> string) option" where
  "match_id s =
     (let prefix = takeWhile is_upper s; rest = dropWhile is_upper s in
      if prefix = [] then None
      else (case rest of
              [] \<Rightarrow> None
            | c # ds \<Rightarrow>
                if c = CHR ''_'' \<and> takeWhile is_digit ds \<noteq> []
                then Some (prefix, takeWhile is_digit ds) else None))"

text \<open>
  The string both \<^verbatim>\<open>while\<close> loops test for membership: \<^verbatim>\<open>f"{prefix}_{num}"\<close> in the
  first loop and \<^verbatim>\<open>f"{base_id}_{i}"\<close> in the second. Neither pads the number.
\<close>

definition candidate :: "string \<Rightarrow> nat \<Rightarrow> string" where
  "candidate prefix n = prefix @ ''_'' @ str_of_nat n"

lemma digit_val_digit_char: "d < 10 \<Longrightarrow> digit_val (digit_char d) = d"
proof -
  assume "d < 10"
  then have "d \<in> {0, 1, 2, 3, 4, 5, 6, 7, 8, 9}" by auto
  then show ?thesis by (auto simp: digit_char_def digit_val_def)
qed

declare str_of_nat.simps [simp del]

lemma int_of_digits_snoc: "int_of_digits (s @ [c]) = 10 * int_of_digits s + digit_val c"
  by (simp add: int_of_digits_def)

text \<open>Parsing undoes printing, so printing is injective.\<close>

lemma int_of_digits_str_of_nat: "int_of_digits (str_of_nat n) = n"
proof (induction n rule: str_of_nat.induct)
  case (1 n)
  show ?case
  proof (cases "n < 10")
    case True
    then show ?thesis
      by (subst str_of_nat.simps) (simp add: int_of_digits_def digit_val_digit_char)
  next
    case False
    then have "int_of_digits (str_of_nat (n div 10)) = n div 10" using 1 by simp
    with False show ?thesis
      by (subst str_of_nat.simps) (simp add: int_of_digits_snoc digit_val_digit_char)
  qed
qed

lemma str_of_nat_inj: "str_of_nat a = str_of_nat b \<Longrightarrow> a = b"
  by (metis int_of_digits_str_of_nat)

lemma candidate_inj: "candidate p a = candidate p b \<Longrightarrow> a = b"
  by (simp add: candidate_def str_of_nat_inj)

text \<open>
  The loops end because \<^verbatim>\<open>existing_ids\<close> is a finite list: the number of its entries
  that are a candidate for some number from \<open>n\<close> on drops at every iteration.
\<close>

definition pending :: "string \<Rightarrow> string list \<Rightarrow> nat \<Rightarrow> nat" where
  "pending p ex n = length (filter (\<lambda>s. \<exists>k. n \<le> k \<and> s = candidate p k) ex)"

lemma pending_decreases:
  assumes "candidate p n \<in> set ex"
  shows "pending p ex (Suc n) < pending p ex n"
proof -
  let ?P = "\<lambda>s. \<exists>k. n \<le> k \<and> s = candidate p k"
  let ?Q = "\<lambda>s. \<exists>k. Suc n \<le> k \<and> s = candidate p k"
  have eq: "filter ?Q ex = filter ?Q (filter ?P ex)"
    by (auto intro!: filter_cong simp: Suc_le_eq) (metis less_imp_le_nat)
  have mem: "candidate p n \<in> set (filter ?P ex)" using assms by auto
  have "\<not> ?Q (candidate p n)" using candidate_inj by fastforce
  with mem have "length (filter ?Q (filter ?P ex)) < length (filter ?P ex)"
    by (rule length_filter_less)
  with eq show ?thesis by (simp add: pending_def)
qed

text \<open>
  \<^verbatim>\<open>while f"{prefix}_{num}" in existing_ids: num += 1\<close>, returning the final
  \<^verbatim>\<open>num\<close>.
\<close>

function next_free :: "string \<Rightarrow> string list \<Rightarrow> nat \<Rightarrow> nat" where
  "next_free prefix existing_ids num =
     (if candidate prefix num \<in> set existing_ids
      then next_free prefix existing_ids (num + 1) else num)"
  by pat_completeness auto
termination
  by (relation "measure (\<lambda>(p, ex, n). pending p ex n)") (auto simp: pending_decreases)

declare next_free.simps [simp del]

definition generate_record_id :: "string \<Rightarrow> string list \<Rightarrow> string" where
  "generate_record_id base_id existing_ids =
     (if base_id \<notin> set existing_ids then base_id
      else (case match_id base_id of
              Some (prefix, num) \<Rightarrow>
                prefix @ ''_'' @
                  zfill4 (str_of_nat (next_free prefix existing_ids (int_of_digits num)))
            | None \<Rightarrow> candidate base_id (next_free base_id existing_ids 1)))"

lemma next_free_unused: "candidate p (next_free p ex n) \<notin> set ex"
  by (induction p ex n rule: next_free.induct) (subst next_free.simps, simp)

lemma next_free_stays: "candidate p n \<notin> set ex \<Longrightarrow> next_free p ex n = n"
  by (subst next_free.simps) simp

text \<open>
  Without a pattern match the suffix that is returned is the suffix that was tested, so
  the result is new.
\<close>

lemma generate_record_id_plain_fresh:
  "match_id base_id = None \<Longrightarrow> generate_record_id base_id existing_ids \<notin> set existing_ids"
  by (simp add: generate_record_id_def next_free_unused)

text \<open>
  C1. The specification's example \<^verbatim>\<open>generate("REC_0001", {"REC_0001","REC_0002"})\<close> is
  said to give \<^verbatim>\<open>"REC_0003"\<close>, an identifier outside the existing ones. On the code the
  loop tests the unpadded \<^verbatim>\<open>"REC_1"\<close>, which is not among the existing identifiers, stops
  at once and returns the padded \<^verbatim>\<open>"REC_0001"\<close>: the very identifier that was taken.
\<close>

theorem generate_record_id_returns_taken_id:
  "generate_record_id ''REC_0001'' [''REC_0001'', ''REC_0002''] = ''REC_0001'' \<and>
   generate_record_id ''REC_0001'' [''REC_0001'', ''REC_0002'']
     \<in> set [''REC_0001'', ''REC_0002'']"
  by code_simp

section \<open>Binary floating point\<close>

text \<open>
  The numbers that pandas and numpy compute with are IEEE 754 binary64 values. Every
  arithmetic operation returns the exact result rounded to the nearest representable
  value, ties to the even significand. A finite binary64 value is modelled by the rational
  number it denotes, and \<open>fl\<close> is that rounding: a significand of 53 bits, and below
  \<open>2 ^ -1022\<close> the fixed spacing \<open>2 ^ -1074\<close> of the subnormal values. What lies beyond
  the largest finite value is decided where infinities exist (\<open>to_float64\<close> below).
\<close>

text \<open>The number of binary digits of a positive integer.\<close>

function bit_length :: "int \<Rightarrow> int" where
  "bit_length n = (if n \<le> 0 then 0 else 1 + bit_length (n div 2))"
  by pat_completeness auto
termination
  by (relation "measure nat") auto

declare bit_length.simps [simp del]

definition pow2 :: "int \<Rightarrow> rat" where
  "pow2 e = (if 0 \<le> e then 2 ^ nat e else 1 / 2 ^ nat (- e))"

text \<open>The binary exponent of a non-zero number: \<open>2 ^ e \<le> |x| < 2 ^ (e + 1)\<close>.\<close>

definition exponent :: "rat \<Rightarrow> int" where
  "exponent x =
     (if 1 \<le> \<bar>x\<bar> then bit_length \<lfloor>\<bar>x\<bar>\<rfloor> - 1
      else - bit_length (\<lceil>1 / \<bar>x\<bar>\<rceil> - 1))"

text \<open>Rounding to the nearest integer, ties to even (\<^verbatim>\<open>rint\<close>).\<close>

definition round_half_even :: "rat \<Rightarrow> int" where
  "round_half_even x =
     (let f = \<lfloor>x\<rfloor>; d = x - of_int f in
      if d < 1 / 2 then f else if 1 / 2 < d then f + 1 else if even f then f else f + 1)"

text \<open>The spacing of the binary64 values around \<open>x\<close>, and the rounding to them.\<close>

definition quantum :: "rat \<Rightarrow> rat" where
  "quantum x = pow2 (max (exponent x) (- 1022) - 52)"

definition fl :: "rat \<Rightarrow> rat" where
  "fl x = (if x = 0 then 0 else of_int (round_half_even (x / quantum x)) * quantum x)"

subsection \<open>The exponent and the rounding error\<close>

lemma bit_length_nonneg: "0 \<le> bit_length n"
proof (induction n rule: bit_length.induct)
  case (1 n)
  then show ?case by (subst bit_length.simps) simp
qed

lemma bit_length_pos: "0 < n \<Longrightarrow> 0 < bit_length n"
  using bit_length_nonneg[of "n div 2"] by (subst bit_length.simps) simp

lemma bit_length_bounds:
  "0 < n \<Longrightarrow> 2 ^ nat (bit_length n - 1) \<le> n \<and> n < 2 ^ nat (bit_length n)"
proof (induction n rule: bit_length.induct)
  case (1 n)
  show ?case
  proof (cases "n = 1")
    case True
    have "bit_length 1 = 1"
      by (subst bit_length.simps, simp, subst bit_length.simps, simp)
    with True show ?thesis by simp
  next
    case False
    with 1(2) have h: "0 < n div 2" by simp
    then have ih: "2 ^ nat (bit_length (n div 2) - 1) \<le> n div 2"
        "n div 2 < 2 ^ nat (bit_length (n div 2))"
      using 1(1) 1(2) by auto
    have bl: "bit_length n = 1 + bit_length (n div 2)"
      using 1(2) by (subst bit_length.simps) simp
    have p: "0 < bit_length (n div 2)" using h by (rule bit_length_pos)
    then have e1: "nat (bit_length n - 1) = Suc (nat (bit_length (n div 2) - 1))"
      unfolding bl by simp
    have e2: "nat (bit_length n) = Suc (nat (bit_length (n div 2)))"
      unfolding bl using p by simp
    have "2 * 2 ^ nat (bit_length (n div 2) - 1) \<le> 2 * (n div 2)" using ih(1) by simp
    also have "\<dots> \<le> n" by simp
    finally have lo: "2 ^ nat (bit_length n - 1) \<le> n" unfolding e1 by simp
    have "n div 2 + 1 \<le> 2 ^ nat (bit_length (n div 2))" using ih(2) by simp
    then have "2 * (n div 2) + 2 \<le> 2 * 2 ^ nat (bit_length (n div 2))" by simp
    moreover have "n < 2 * (n div 2) + 2" by presburger
    ultimately have hi: "n < 2 ^ nat (bit_length n)" unfolding e2 by simp
    from lo hi show ?thesis by simp
  qed
qed

lemma pow2_powi: "pow2 e = 2 powi e"
  by (simp add: pow2_def power_int_def power_one_over inverse_eq_divide)

lemma pow2_pos: "0 < pow2 e"
  by (simp add: pow2_powi)

lemma pow2_add: "pow2 (a + b) = pow2 a * pow2 b"
  by (simp add: pow2_powi power_int_add)

lemma pow2_mono: "a \<le> b \<Longrightarrow> pow2 a \<le> pow2 b"
  by (simp add: pow2_powi power_int_increasing)

lemma pow2_strict_mono: "a < b \<Longrightarrow> pow2 a < pow2 b"
  by (simp add: pow2_powi power_int_strict_increasing)

lemma exponent_bounds:
  assumes "x \<noteq> 0"
  shows "pow2 (exponent x) \<le> \<bar>x\<bar> \<and> \<bar>x\<bar> < pow2 (exponent x + 1)"
proof (cases "1 \<le> \<bar>x\<bar>")
  case True
  let ?m = "\<lfloor>\<bar>x\<bar>\<rfloor>"
  have m: "0 < ?m" using True by simp
  note b = bit_length_bounds[OF m]
  have e: "exponent x = bit_length ?m - 1" using True by (simp add: exponent_def)
  have p: "0 < bit_length ?m" using m by (rule bit_length_pos)
  have "pow2 (exponent x) = of_int (2 ^ nat (bit_length ?m - 1))"
    unfolding e using p by (simp add: pow2_def)
  also have "\<dots> \<le> of_int ?m" using b by (simp only: of_int_le_iff)
  also have "\<dots> \<le> \<bar>x\<bar>" by simp
  finally have lo: "pow2 (exponent x) \<le> \<bar>x\<bar>" .
  have "\<bar>x\<bar> < of_int (?m + 1)" by linarith
  also have "\<dots> \<le> of_int (2 ^ nat (bit_length ?m))"
    using b by (simp only: of_int_le_iff) simp
  also have "\<dots> = pow2 (exponent x + 1)"
    unfolding e using p by (simp add: pow2_def)
  finally show ?thesis using lo by simp
next
  case False
  define y where "y = 1 / \<bar>x\<bar>"
  have y1: "1 < y" using False assms by (simp add: y_def)
  let ?m = "\<lceil>y\<rceil> - 1"
  have m: "0 < ?m" using y1 by linarith
  note b = bit_length_bounds[OF m]
  define k where "k = bit_length ?m"
  have k: "0 < k" unfolding k_def using m by (rule bit_length_pos)
  have e: "exponent x = - k" using False by (simp add: exponent_def k_def y_def)
  have "of_int (2 ^ nat (k - 1)) \<le> (of_int ?m :: rat)"
    using b unfolding k_def by (simp only: of_int_le_iff)
  also have "\<dots> < y" by linarith
  finally have lo: "2 ^ nat (k - 1) < y" by simp
  have "\<lceil>y\<rceil> \<le> 2 ^ nat k" using b unfolding k_def by simp
  then have "(of_int \<lceil>y\<rceil> :: rat) \<le> of_int (2 ^ nat k)" by (simp only: of_int_le_iff)
  moreover have "y \<le> of_int \<lceil>y\<rceil>" by (rule le_of_int_ceiling)
  ultimately have "y \<le> of_int (2 ^ nat k)" by (rule order_trans[rotated])
  then have hi: "y \<le> 2 ^ nat k" by simp
  have xpos: "0 < \<bar>x\<bar>" using assms by simp
  have x: "\<bar>x\<bar> = 1 / y" by (simp add: y_def)
  have "pow2 (exponent x) = 1 / 2 ^ nat k" unfolding e using k by (simp add: pow2_def)
  also have "\<dots> \<le> 1 / y" using hi y1 by (simp add: frac_le)
  finally have 1: "pow2 (exponent x) \<le> \<bar>x\<bar>" using x by simp
  have "1 / y < 1 / 2 ^ nat (k - 1)" using lo by (simp add: frac_less2)
  also have "\<dots> = pow2 (exponent x + 1)"
  proof (cases "k = 1")
    case True
    then show ?thesis unfolding e by (simp add: pow2_def)
  next
    case False
    with k have "- k + 1 < 0" "nat (- (- k + 1)) = nat (k - 1)" by simp_all
    then show ?thesis unfolding e by (simp add: pow2_def)
  qed
  finally show ?thesis using 1 x by simp
qed


lemma exponent_unique:
  assumes "pow2 e \<le> \<bar>x\<bar>" and "\<bar>x\<bar> < pow2 (e + 1)"
  shows "exponent x = e"
proof -
  have "x \<noteq> 0" using assms(1) pow2_pos[of e] by auto
  note b = exponent_bounds[OF this]
  have "\<not> e + 1 \<le> exponent x"
  proof
    assume "e + 1 \<le> exponent x"
    then have "pow2 (e + 1) \<le> pow2 (exponent x)" by (rule pow2_mono)
    with b assms(2) show False by simp
  qed
  moreover have "\<not> exponent x + 1 \<le> e"
  proof
    assume "exponent x + 1 \<le> e"
    then have "pow2 (exponent x + 1) \<le> pow2 e" by (rule pow2_mono)
    with b assms(1) show False by simp
  qed
  ultimately show ?thesis by simp
qed

lemma exponent_pow2 [simp]: "exponent (pow2 e) = e"
  using pow2_pos[of e] pow2_strict_mono[of e "e + 1"]
  by (intro exponent_unique) simp_all

lemma round_half_even_of_int [simp]: "round_half_even (of_int k) = k"
  by (simp add: round_half_even_def)

lemma round_half_even_error: "\<bar>of_int (round_half_even y) - y\<bar> \<le> 1 / 2"
proof -
  define d where "d = y - of_int \<lfloor>y\<rfloor>"
  have d: "0 \<le> d" "d < 1" unfolding d_def by linarith+
  have y: "y = of_int \<lfloor>y\<rfloor> + d" by (simp add: d_def)
  consider "d < 1 / 2" | "1 / 2 < d" | "d = 1 / 2" by linarith
  then show ?thesis
  proof cases
    case 1
    then have "round_half_even y = \<lfloor>y\<rfloor>" by (simp add: round_half_even_def d_def Let_def)
    with 1 d show ?thesis by (simp add: d_def)
  next
    case 2
    then have "round_half_even y = \<lfloor>y\<rfloor> + 1"
      by (simp add: round_half_even_def d_def Let_def)
    then have "of_int (round_half_even y) - y = 1 - d" by (simp add: d_def)
    with 2 d show ?thesis by simp
  next
    case 3
    then have "round_half_even y = \<lfloor>y\<rfloor> \<or> round_half_even y = \<lfloor>y\<rfloor> + 1"
      by (simp add: round_half_even_def d_def Let_def)
    then have "of_int (round_half_even y) - y = - d \<or> of_int (round_half_even y) - y = 1 - d"
      by (auto simp: d_def)
    with 3 show ?thesis by auto
  qed
qed

text \<open>The rounding error is at most half the spacing.\<close>

lemma fl_error: "\<bar>fl x - x\<bar> \<le> quantum x / 2"
proof (cases "x = 0")
  case True
  then show ?thesis using pow2_pos by (simp add: fl_def quantum_def less_imp_le)
next
  case False
  let ?q = "quantum x"
  have q: "0 < ?q" by (simp add: quantum_def pow2_pos)
  have "fl x - x = (of_int (round_half_even (x / ?q)) - x / ?q) * ?q"
    using False q by (simp add: fl_def field_simps)
  then have "\<bar>fl x - x\<bar> = \<bar>of_int (round_half_even (x / ?q)) - x / ?q\<bar> * ?q"
    using q by (simp add: abs_mult)
  also have "\<dots> \<le> 1 / 2 * ?q"
    using round_half_even_error[of "x / ?q"] q by (intro mult_right_mono) simp_all
  finally show ?thesis by simp
qed

lemma fl_pow2:
  assumes "- 1022 \<le> e"
  shows "fl (pow2 e) = pow2 e"
proof -
  have q: "quantum (pow2 e) = pow2 (e - 52)" using assms by (simp add: quantum_def max_def)
  have "pow2 e = pow2 (52 + (e - 52))" by simp
  also have "\<dots> = pow2 52 * pow2 (e - 52)" by (rule pow2_add)
  finally have split: "pow2 e = pow2 52 * pow2 (e - 52)" .
  have p52: "pow2 52 = of_int (2 ^ 52)" by (simp add: pow2_def)
  have "pow2 e / pow2 (e - 52) = of_int (2 ^ 52)"
    using pow2_pos[of "e - 52"] split p52 by simp
  then have "round_half_even (pow2 e / pow2 (e - 52)) = 2 ^ 52"
    by (simp only: round_half_even_of_int)
  moreover have "of_int (2 ^ 52) * pow2 (e - 52) = pow2 e"
    using split p52 by simp
  moreover have "pow2 e \<noteq> 0" using pow2_pos[of e] by simp
  ultimately show ?thesis
    unfolding fl_def q by simp
qed

text \<open>Some binary64 values: a tenth, a third, and a tie below the normal range.\<close>

lemma fl_examples:
  "fl (1 / 10) = 3602879701896397 / 2 ^ 55"
  "fl (1 / 3) = 6004799503160661 / 2 ^ 54"
  "fl (2 ^ 53 + 1) = 2 ^ 53"
  "fl (2 ^ 53 + 3) = 2 ^ 53 + 4"
  by code_simp+

section \<open>Tables (pandas frames as the loader uses them)\<close>

text \<open>
  A cell of a table read from CSV is a string, a number or the missing value \<open>NaN\<close>.
  HOL equality on cells makes \<open>NaN\<close> equal to itself, which is how \<^verbatim>\<open>isin\<close>,
  \<^verbatim>\<open>unique\<close> and \<^verbatim>\<open>value_counts\<close> treat it. A frame is its list of column names and its
  rows; in a frame that was read from a file every row is as long as the list of columns
  and the names are distinct.
\<close>

datatype cell = NaN | Str string | Num rat

record dataframe =
  columns :: "string list"
  rows :: "cell list list"

text \<open>The only exception the loader's methods can raise on a loaded table.\<close>

datatype error = KeyError string

fun column_index :: "string \<Rightarrow> string list \<Rightarrow> nat option" where
  "column_index name [] = None"
| "column_index name (c # cs) =
     (if c = name then Some 0 else map_option Suc (column_index name cs))"

text \<open>\<^verbatim>\<open>df[name]\<close>: the column, or \<^verbatim>\<open>KeyError\<close> when the frame has no such column.\<close>

definition getitem :: "dataframe \<Rightarrow> string \<Rightarrow> error + cell list" where
  "getitem df name =
     (case column_index name (columns df) of
        None \<Rightarrow> Inl (KeyError name)
      | Some i \<Rightarrow> Inr (map (\<lambda>r. r ! i) (rows df)))"

text \<open>\<^verbatim>\<open>df[keep]\<close> with a boolean column: the rows whose flag is set.\<close>

definition select_rows :: "dataframe \<Rightarrow> bool list \<Rightarrow> dataframe" where
  "select_rows df keep = df\<lparr>rows := map snd (filter fst (zip keep (rows df)))\<rparr>"

definition len :: "dataframe \<Rightarrow> nat" where
  "len df = length (rows df)"

text \<open>\<^verbatim>\<open>Series.unique()\<close>: the distinct values in order of first appearance.\<close>

definition unique :: "cell list \<Rightarrow> cell list" where
  "unique xs = rev (remdups (rev xs))"

text \<open>
  \<^verbatim>\<open>Series.value_counts()\<close>: missing values are dropped, every other value is paired
  with the number of its occurrences, and the pairs are sorted by count, largest first.
  Values with the same count are kept here in order of first appearance; no statement
  below depends on the order among equal counts.
\<close>

definition value_counts :: "cell list \<Rightarrow> (cell \<times> nat) list" where
  "value_counts col =
     (let vals = filter (\<lambda>v. v \<noteq> NaN) col in
      sort_key (\<lambda>vc. - int (snd vc)) (map (\<lambda>v. (v, count_list vals v)) (unique vals)))"

text \<open>
  \<^verbatim>\<open>value_counts().reset_index()\<close> followed by the assignment of the two column
  names \<^verbatim>\<open>[name, 'count']\<close>.
\<close>

definition counts_frame :: "string \<Rightarrow> (cell \<times> nat) list \<Rightarrow> dataframe" where
  "counts_frame name vc =
     \<lparr>columns = [name, ''count''], rows = map (\<lambda>(v, c). [v, Num (of_nat c)]) vc\<rparr>"

text \<open>
  \<^verbatim>\<open>Series.round(1)\<close> on binary64 values is numpy's rounding to one decimal: the value
  is multiplied by ten, rounded to the nearest integer and divided by ten, each step a
  binary64 operation.
\<close>

definition round1 :: "rat \<Rightarrow> rat" where
  "round1 y = fl (of_int (round_half_even (fl (y * 10))) / 10)"

text \<open>
  One element of \<^verbatim>\<open>(count / len(df) * 100).round(1)\<close>: the count and the length are
  converted to binary64, divided, multiplied by 100 and rounded to one decimal. A count is
  at least one and at most the length, and a frame has fewer than \<open>2 ^ 63\<close> rows, so no
  step leaves the range of the finite values.
\<close>

definition cell_percentage :: "nat \<Rightarrow> cell \<Rightarrow> cell" where
  "cell_percentage n c =
     (case c of
        Num x \<Rightarrow> Num (round1 (fl (fl (fl x / fl (of_nat n)) * 100)))
      | _ \<Rightarrow> NaN)"

text \<open>\<^verbatim>\<open>df[name] = vals\<close> for a name that is not yet a column: a new last column.\<close>

definition setitem :: "dataframe \<Rightarrow> string \<Rightarrow> cell list \<Rightarrow> dataframe" where
  "setitem df name vals =
     \<lparr>columns = columns df @ [name], rows = map (\<lambda>(r, v). r @ [v]) (zip (rows df) vals)\<rparr>"

section \<open>The loader (src/src/data\_loader.py, class EthiopiaFIDataLoader)\<close>

text \<open>
  The object's attributes. A table that was not loaded is \<^verbatim>\<open>None\<close>.
\<close>

record loader =
  data_dir :: string
  unified_data :: "dataframe option"
  reference_codes :: "dataframe option"
  additional_guide :: "(string \<times> dataframe) list option"

text \<open>
  The report of \<^verbatim>\<open>validate_data\<close> is a Python dictionary. Every key is assigned at most
  once, so the dictionary is the list of its items in insertion order and an assignment
  appends an item; \<^verbatim>\<open>len\<close> of the dictionary is the length of the list.
\<close>

record validation_summary =
  total_records :: nat
  valid_record_types :: "cell list"
  data_quality :: string

datatype report_value =
    Message string
  | Names "string list"
  | Values "cell list"
  | Summary validation_summary

type_synonym report = "(string \<times> report_value) list"

definition required_cols :: "string list" where
  "required_cols = [''record_id'', ''record_type'', ''category'', ''pillar'',
                    ''indicator'', ''indicator_code'', ''observation_date'']"

text \<open>
  \<^verbatim>\<open>validate_data\<close>, statement by statement. The \<^verbatim>\<open>data_quality\<close> entry is computed
  while the dictionary literal of the summary is evaluated, that is before the key
  \<^verbatim>\<open>'summary'\<close> is stored: \<^verbatim>\<open>len(validation_results)\<close> counts the issue categories
  only.
\<close>

definition validate_data :: "loader \<Rightarrow> error + report" where
  "validate_data self =
     (case (unified_data self, reference_codes self) of
        (Some ud, Some rc) \<Rightarrow>
          (let validation_results = [];
               missing_cols = filter (\<lambda>col. col \<notin> set (columns ud)) required_cols;
               validation_results =
                 (if missing_cols \<noteq> []
                  then validation_results @ [(''missing_columns'', Names missing_cols)]
                  else validation_results)
           in case getitem rc ''field'' of
                Inl e \<Rightarrow> Inl e
              | Inr field \<Rightarrow>
           (case getitem (select_rows rc (map (\<lambda>v. v = Str ''record_type'') field)) ''code'' of
                Inl e \<Rightarrow> Inl e
              | Inr valid_types \<Rightarrow>
           (case getitem ud ''record_type'' of
                Inl e \<Rightarrow> Inl e
              | Inr record_type \<Rightarrow>
           (let invalid_record_types =
                  select_rows ud (map (\<lambda>v. v \<notin> set valid_types) record_type)
            in case (if 0 < len invalid_record_types
                     then (case getitem invalid_record_types ''record_type'' of
                             Inl e \<Rightarrow> Inl e
                           | Inr vs \<Rightarrow>
                               Inr (validation_results @
                                      [(''invalid_record_types'', Values (unique vs))]))
                     else Inr validation_results) of
                 Inl e \<Rightarrow> Inl e
               | Inr validation_results \<Rightarrow>
                   Inr (validation_results @
                     [(''summary'', Summary
                        \<lparr>total_records = len ud,
                         valid_record_types = valid_types,
                         data_quality =
                           (if length validation_results = 1 then ''PASS''
                            else ''NEEDS REVIEW'')\<rparr>)])))))
      | _ \<Rightarrow> Inr [(''error'', Message ''Data not loaded'')])"

text \<open>
  \<^verbatim>\<open>get_data_summary\<close>. Only the table of record types gets a \<^verbatim>\<open>percentage\<close>
  column.
\<close>

definition get_data_summary :: "loader \<Rightarrow> error + (string \<times> dataframe) list" where
  "get_data_summary self =
     (case unified_data self of
        None \<Rightarrow> Inr []
      | Some ud \<Rightarrow>
          (case getitem ud ''record_type'' of
             Inl e \<Rightarrow> Inl e
           | Inr record_type \<Rightarrow>
          (let record_type_summary = counts_frame ''record_type'' (value_counts record_type) in
           case getitem record_type_summary ''count'' of
             Inl e \<Rightarrow> Inl e
           | Inr counts \<Rightarrow>
          (let record_type_summary =
                 setitem record_type_summary ''percentage''
                   (map (cell_percentage (len ud)) counts)
           in case getitem ud ''pillar'' of
             Inl e \<Rightarrow> Inl e
           | Inr pillar \<Rightarrow>
          (case getitem ud ''source_type'' of
             Inl e \<Rightarrow> Inl e
           | Inr source_type \<Rightarrow>
          (case getitem ud ''confidence'' of
             Inl e \<Rightarrow> Inl e
           | Inr confidence \<Rightarrow>
               Inr [(''record_types'', record_type_summary),
                    (''pillars'', counts_frame ''pillar'' (value_counts pillar)),
                    (''sources'', counts_frame ''source_type'' (value_counts source_type)),
                    (''confidence'', counts_frame ''confidence'' (value_counts confidence))]))))))"

text \<open>
  The four grouping columns with the key under which \<^verbatim>\<open>get_data_summary\<close> stores the
  table of each.
\<close>

definition grouping :: "(string \<times> string) list" where
  "grouping = [(''record_type'', ''record_types''), (''pillar'', ''pillars''),
               (''source_type'', ''sources''), (''confidence'', ''confidence'')]"

subsection \<open>Example loaders\<close>

text \<open>
  A table with every required column, one valid record and the catalogue of record types;
  the same table without its \<^verbatim>\<open>category\<close> column; and a table in which two records
  share the identifier \<^verbatim>\<open>REC_0001\<close>.
\<close>

definition clean_loader :: loader where
  "clean_loader =
     \<lparr>data_dir = ''data/raw'',
      unified_data = Some
        \<lparr>columns = [''record_id'', ''record_type'', ''category'', ''pillar'',
                     ''indicator'', ''indicator_code'', ''observation_date''],
         rows = [[Str ''REC_0001'', Str ''observation'', Str ''access'', Str ''ACCESS'',
                  Str ''Account Ownership'', Str ''ACC_OWNERSHIP'', Str ''2014-12-31'']]\<rparr>,
      reference_codes = Some
        \<lparr>columns = [''field'', ''code''],
         rows = [[Str ''record_type'', Str ''observation''],
                 [Str ''record_type'', Str ''event'']]\<rparr>,
      additional_guide = None\<rparr>"

definition incomplete_loader :: loader where
  "incomplete_loader =
     \<lparr>data_dir = ''data/raw'',
      unified_data = Some
        \<lparr>columns = [''record_id'', ''record_type'', ''pillar'',
                     ''indicator'', ''indicator_code'', ''observation_date''],
         rows = [[Str ''REC_0001'', Str ''observation'', Str ''ACCESS'',
                  Str ''Account Ownership'', Str ''ACC_OWNERSHIP'', Str ''2014-12-31'']]\<rparr>,
      reference_codes = Some
        \<lparr>columns = [''field'', ''code''],
         rows = [[Str ''record_type'', Str ''observation''],
                 [Str ''record_type'', Str ''event'']]\<rparr>,
      additional_guide = None\<rparr>"

definition duplicate_loader :: loader where
  "duplicate_loader =
     \<lparr>data_dir = ''data/raw'',
      unified_data = Some
        \<lparr>columns = [''record_id'', ''record_type'', ''category'', ''pillar'',
                     ''indicator'', ''indicator_code'', ''observation_date''],
         rows = [[Str ''REC_0001'', Str ''observation'', Str ''access'', Str ''ACCESS'',
                  Str ''Account Ownership'', Str ''ACC_OWNERSHIP'', Str ''2014-12-31''],
                 [Str ''REC_0001'', Str ''observation'', Str ''access'', Str ''ACCESS'',
                  Str ''Account Ownership'', Str ''ACC_OWNERSHIP'', Str ''2017-12-31'']]\<rparr>,
      reference_codes = Some
        \<lparr>columns = [''field'', ''code''],
         rows = [[Str ''record_type'', Str ''observation''],
                 [Str ''record_type'', Str ''event'']]\<rparr>,
      additional_guide = None\<rparr>"

text \<open>A loader whose record table is loaded while its reference codes are not, and one with nothing loaded.\<close>

definition no_codes_loader :: loader where
  "no_codes_loader =
     \<lparr>data_dir = ''data/raw'',
      unified_data = Some
        \<lparr>columns = [''record_type'', ''pillar'', ''source_type'', ''confidence''],
         rows = [[Str ''observation'', Str ''ACCESS'', Str ''survey'', Str ''high'']]\<rparr>,
      reference_codes = None,
      additional_guide = None\<rparr>"

definition empty_loader :: loader where
  "empty_loader =
     \<lparr>data_dir = ''data/raw'', unified_data = None, reference_codes = None,
      additional_guide = None\<rparr>"

text \<open>
  Ten records, eight observations and two events; a table without a \<^verbatim>\<open>pillar\<close> column;
  a table with neither a \<^verbatim>\<open>pillar\<close> nor a \<^verbatim>\<open>confidence\<close> column; and a table whose
  \<^verbatim>\<open>pillar\<close> column is empty in every record.
\<close>

definition summary_example :: loader where
  "summary_example =
     \<lparr>data_dir = ''data/raw'',
      unified_data = Some
        \<lparr>columns = [''record_type'', ''pillar'', ''source_type'', ''confidence''],
         rows = [[Str ''observation'', Str ''ACCESS'', Str ''survey'', Str ''high''],
                 [Str ''observation'', Str ''ACCESS'', Str ''survey'', Str ''high''],
                 [Str ''observation'', Str ''USAGE'', Str ''operator'', Str ''medium''],
                 [Str ''observation'', Str ''ACCESS'', Str ''survey'', Str ''high''],
                 [Str ''observation'', Str ''USAGE'', Str ''operator'', Str ''high''],
                 [Str ''observation'', Str ''ACCESS'', Str ''regulator'', Str ''high''],
                 [Str ''observation'', Str ''USAGE'', Str ''operator'', Str ''medium''],
                 [Str ''observation'', Str ''ACCESS'', Str ''survey'', Str ''high''],
                 [Str ''event'', NaN, Str ''news'', Str ''medium''],
                 [Str ''event'', NaN, Str ''regulator'', Str ''high'']]\<rparr>,
      reference_codes = None,
      additional_guide = None\<rparr>"

definition no_pillar_loader :: loader where
  "no_pillar_loader =
     \<lparr>data_dir = ''data/raw'',
      unified_data = Some
        \<lparr>columns = [''record_type'', ''source_type'', ''confidence''],
         rows = [[Str ''observation'', Str ''survey'', Str ''high''],
                 [Str ''event'', Str ''news'', Str ''medium'']]\<rparr>,
      reference_codes = None,
      additional_guide = None\<rparr>"

definition no_pillar_confidence_loader :: loader where
  "no_pillar_confidence_loader =
     \<lparr>data_dir = ''data/raw'',
      unified_data = Some
        \<lparr>columns = [''record_type'', ''source_type''],
         rows = [[Str ''observation'', Str ''survey''],
                 [Str ''event'', Str ''news'']]\<rparr>,
      reference_codes = None,
      additional_guide = None\<rparr>"

definition null_pillar_loader :: loader where
  "null_pillar_loader =
     \<lparr>data_dir = ''data/raw'',
      unified_data = Some
        \<lparr>columns = [''record_type'', ''pillar'', ''source_type'', ''confidence''],
         rows = [[Str ''observation'', NaN, Str ''survey'', Str ''high''],
                 [Str ''event'', NaN, Str ''news'', Str ''medium'']]\<rparr>,
      reference_codes = None,
      additional_guide = None\<rparr>"

subsection \<open>Column access and row selection\<close>

lemma column_index_None: "column_index name cs = None \<longleftrightarrow> name \<notin> set cs"
  by (induction cs) auto

lemma column_index_Some: "column_index name cs = Some i \<Longrightarrow> name \<in> set cs"
  by (induction cs arbitrary: i) (auto split: if_splits)

lemma getitem_Inl: "getitem df name = Inl e \<longleftrightarrow> name \<notin> set (columns df) \<and> e = KeyError name"
  by (auto simp: getitem_def column_index_None split: option.splits dest: column_index_Some)

lemma getitem_missing: "name \<notin> set (columns df) \<Longrightarrow> getitem df name = Inl (KeyError name)"
  by (simp add: getitem_Inl)

lemma getitem_present: "name \<in> set (columns df) \<Longrightarrow> \<exists>col. getitem df name = Inr col"
  by (cases "getitem df name") (auto simp: getitem_Inl)

lemma getitem_Inr_present: "getitem df name = Inr col \<Longrightarrow> name \<in> set (columns df)"
  by (auto simp: getitem_def split: option.splits dest: column_index_Some)

lemma getitem_length: "getitem df name = Inr col \<Longrightarrow> length col = len df"
  by (auto simp: getitem_def len_def split: option.splits)

lemma map_select: "map (f \<circ> snd) (filter fst (zip ks rs)) = map snd (filter fst (zip ks (map f rs)))"
  by (induction ks arbitrary: rs) (auto simp: zip_Cons1 split: list.splits)

lemma length_select: "length ks = length rs \<Longrightarrow> length (filter fst (zip ks rs)) = length (filter id ks)"
  by (induction ks rs rule: list_induct2) auto

lemma getitem_select_rows:
  "getitem (select_rows df keep) name =
     (case getitem df name of Inl e \<Rightarrow> Inl e
      | Inr col \<Rightarrow> Inr (map snd (filter fst (zip keep col))))"
  by (simp add: getitem_def select_rows_def map_select split: option.splits)

lemma len_select_rows:
  "length keep = len df \<Longrightarrow> len (select_rows df keep) = length (filter id keep)"
  by (simp add: len_def select_rows_def length_select)

subsection \<open>The validator\<close>

text \<open>
  What \<^verbatim>\<open>validate_data\<close> returns when nothing raises: at most two issue categories,
  then the summary, whose verdict is \<^verbatim>\<open>PASS\<close> exactly when one category is present.
\<close>

lemma validate_data_loaded:
  assumes "unified_data self = Some ud" "reference_codes self = Some rc"
    and "getitem rc ''field'' = Inr field"
    and "getitem (select_rows rc (map (\<lambda>v. v = Str ''record_type'') field)) ''code'' = Inr valid"
    and "getitem ud ''record_type'' = Inr record_type"
  shows "validate_data self =
    (let issues =
       (if filter (\<lambda>col. col \<notin> set (columns ud)) required_cols \<noteq> []
        then [(''missing_columns'', Names (filter (\<lambda>col. col \<notin> set (columns ud)) required_cols))]
        else []) @
       (if filter (\<lambda>v. v \<notin> set valid) record_type \<noteq> []
        then [(''invalid_record_types'', Values (unique (filter (\<lambda>v. v \<notin> set valid) record_type)))]
        else [])
     in Inr (issues @ [(''summary'', Summary \<lparr>total_records = len ud, valid_record_types = valid,
          data_quality = (if length issues = 1 then ''PASS'' else ''NEEDS REVIEW'')\<rparr>)]))"
proof -
  let ?keep = "map (\<lambda>v. v \<notin> set valid) record_type"
  have sel: "map snd (filter fst (zip ?keep record_type)) = filter (\<lambda>v. v \<notin> set valid) record_type"
    by (induction record_type) auto
  have l: "len (select_rows ud ?keep) = length (filter (\<lambda>v. v \<notin> set valid) record_type)"
    using getitem_length[OF assms(5)] 
    by (simp add: len_select_rows)
  show ?thesis
    using assms
    by (simp add: validate_data_def Let_def getitem_select_rows l sel)
qed

lemma validate_data_keys:
  "validate_data self = Inr report \<Longrightarrow>
   set (map fst report) \<subseteq> {''error'', ''missing_columns'', ''invalid_record_types'', ''summary''}"
  by (auto simp: validate_data_def Let_def split: option.splits sum.splits if_splits)

lemma validate_data_cong:
  assumes "columns ud' = columns ud" "len ud' = len ud"
    and "getitem ud' ''record_type'' = getitem ud ''record_type''"
  shows "validate_data (self\<lparr>unified_data := Some ud'\<rparr>) =
         validate_data (self\<lparr>unified_data := Some ud\<rparr>)"
proof (cases "reference_codes self")
  case None
  then show ?thesis by (simp add: validate_data_def)
next
  case (Some rc)
  show ?thesis
  proof (cases "getitem rc ''field''")
    case (Inl e)
    with Some show ?thesis by (simp add: validate_data_def)
  next
    case field: (Inr field)
    show ?thesis
    proof (cases "getitem (select_rows rc (map (\<lambda>v. v = Str ''record_type'') field)) ''code''")
      case (Inl e)
      with Some field show ?thesis by (simp add: validate_data_def)
    next
      case valid: (Inr valid)
      show ?thesis
      proof (cases "getitem ud ''record_type''")
        case (Inl e)
        with Some field valid assms show ?thesis by (simp add: validate_data_def)
      next
        case (Inr record_type)
        have a: "validate_data (self\<lparr>unified_data := Some ud\<rparr>) = 
          (let issues =
       (if filter (\<lambda>col. col \<notin> set (columns ud)) required_cols \<noteq> []
        then [(''missing_columns'', Names (filter (\<lambda>col. col \<notin> set (columns ud)) required_cols))]
        else []) @
       (if filter (\<lambda>v. v \<notin> set valid) record_type \<noteq> []
        then [(''invalid_record_types'', Values (unique (filter (\<lambda>v. v \<notin> set valid) record_type)))]
        else [])
     in Inr (issues @ [(''summary'', Summary \<lparr>total_records = len ud, valid_record_types = valid,
          data_quality = (if length issues = 1 then ''PASS'' else ''NEEDS REVIEW'')\<rparr>)]))"
          using Some field valid Inr by (intro validate_data_loaded) simp_all
        have b: "validate_data (self\<lparr>unified_data := Some ud'\<rparr>) = 
          (let issues =
       (if filter (\<lambda>col. col \<notin> set (columns ud')) required_cols \<noteq> []
        then [(''missing_columns'', Names (filter (\<lambda>col. col \<notin> set (columns ud')) required_cols))]
        else []) @
       (if filter (\<lambda>v. v \<notin> set valid) record_type \<noteq> []
        then [(''invalid_record_types'', Values (unique (filter (\<lambda>v. v \<notin> set valid) record_type)))]
        else [])
     in Inr (issues @ [(''summary'', Summary \<lparr>total_records = len ud', valid_record_types = valid,
          data_quality = (if length issues = 1 then ''PASS'' else ''NEEDS REVIEW'')\<rparr>)]))"
          using Some field valid Inr assms by (intro validate_data_loaded) simp_all
        show ?thesis unfolding a b using assms by simp
      qed
    qed
  qed
qed

text \<open>
  C2. The verdict is meant to be \<^verbatim>\<open>PASS\<close> when no issue category was collected. On the
  code a table without any issue gets \<^verbatim>\<open>NEEDS REVIEW\<close>, and a table whose only issue
  is a missing required column gets \<^verbatim>\<open>PASS\<close>: the test \<^verbatim>\<open>len(validation_results) == 1\<close>
  runs before the summary is stored in the dictionary.
\<close>

theorem validate_data_verdict_inverted:
  "validate_data clean_loader =
     Inr [(''summary'', Summary \<lparr>total_records = 1,
             valid_record_types = [Str ''observation'', Str ''event''],
             data_quality = ''NEEDS REVIEW''\<rparr>)] \<and>
   validate_data incomplete_loader =
     Inr [(''missing_columns'', Names [''category'']),
          (''summary'', Summary \<lparr>total_records = 1,
             valid_record_types = [Str ''observation'', Str ''event''],
             data_quality = ''PASS''\<rparr>)]"
  by code_simp

text \<open>
  C3, as stated, fails: for a table in which two records share an identifier the report
  has the summary as its only entry. (Its verdict is the one a table without any issue
  gets, see C2.)
\<close>

theorem validate_data_duplicates_unreported:
  "validate_data duplicate_loader =
     Inr [(''summary'', Summary \<lparr>total_records = 2,
             valid_record_types = [Str ''observation'', Str ''event''],
             data_quality = ''NEEDS REVIEW''\<rparr>)]"
  by code_simp

text \<open>
  C3, amended. When both tables are loaded, the reference codes have the columns
  \<^verbatim>\<open>field\<close> and \<^verbatim>\<open>code\<close> and the record table has a \<^verbatim>\<open>record_type\<close> column, the
  validator makes two checks and no other: the required columns that the table lacks are
  collected under \<^verbatim>\<open>missing_columns\<close>, the record types outside the catalogue, each
  once, under \<^verbatim>\<open>invalid_record_types\<close>, and the report ends with the summary, which
  carries the number of records and the valid record types. There is no check of
  uniqueness: the report depends on the record table only through the column names, the
  number of rows and the \<^verbatim>\<open>record_type\<close> column, so the identifiers of the records
  are never looked at, and the keys of a report are among \<^verbatim>\<open>error\<close>,
  \<^verbatim>\<open>missing_columns\<close>, \<^verbatim>\<open>invalid_record_types\<close> and \<^verbatim>\<open>summary\<close>.
\<close>

theorem validate_data_ignores_record_ids:
  assumes "unified_data self = Some ud"
    and "columns ud' = columns ud" and "len ud' = len ud"
    and "getitem ud' ''record_type'' = getitem ud ''record_type''"
  shows "validate_data (self\<lparr>unified_data := Some ud'\<rparr>) = validate_data self \<and>
         (case validate_data self of
            Inl e \<Rightarrow> True
          | Inr report \<Rightarrow>
              set (map fst report) \<subseteq>
                {''error'', ''missing_columns'', ''invalid_record_types'', ''summary''}) \<and>
         (reference_codes self = Some rc \<and> getitem rc ''field'' = Inr field \<and>
          getitem (select_rows rc (map (\<lambda>v. v = Str ''record_type'') field)) ''code'' =
            Inr valid \<and>
          getitem ud ''record_type'' = Inr record_type \<longrightarrow>
            (\<exists>quality. validate_data self =
               Inr ((if filter (\<lambda>col. col \<notin> set (columns ud)) required_cols \<noteq> []
                     then [(''missing_columns'',
                            Names (filter (\<lambda>col. col \<notin> set (columns ud)) required_cols))]
                     else []) @
                    (if filter (\<lambda>v. v \<notin> set valid) record_type \<noteq> []
                     then [(''invalid_record_types'',
                            Values (unique (filter (\<lambda>v. v \<notin> set valid) record_type)))]
                     else []) @
                    [(''summary'',
                      Summary \<lparr>total_records = len ud, valid_record_types = valid,
                               data_quality = quality\<rparr>)])))"
proof (intro conjI impI)
  have "self\<lparr>unified_data := Some ud\<rparr> = self" using assms(1) by simp
  then show "validate_data (self\<lparr>unified_data := Some ud'\<rparr>) = validate_data self"
    using validate_data_cong[OF assms(2-4), of self] by simp
next
  show "case validate_data self of Inl e \<Rightarrow> True
          | Inr report \<Rightarrow>
              set (map fst report) \<subseteq>
                {''error'', ''missing_columns'', ''invalid_record_types'', ''summary''}"
    using validate_data_keys[of self] by (cases "validate_data self") auto
next
  assume loaded: "reference_codes self = Some rc \<and> getitem rc ''field'' = Inr field \<and>
          getitem (select_rows rc (map (\<lambda>v. v = Str ''record_type'') field)) ''code'' =
            Inr valid \<and>
          getitem ud ''record_type'' = Inr record_type"
  show "\<exists>quality. validate_data self =
               Inr ((if filter (\<lambda>col. col \<notin> set (columns ud)) required_cols \<noteq> []
                     then [(''missing_columns'',
                            Names (filter (\<lambda>col. col \<notin> set (columns ud)) required_cols))]
                     else []) @
                    (if filter (\<lambda>v. v \<notin> set valid) record_type \<noteq> []
                     then [(''invalid_record_types'',
                            Values (unique (filter (\<lambda>v. v \<notin> set valid) record_type)))]
                     else []) @
                    [(''summary'',
                      Summary \<lparr>total_records = len ud, valid_record_types = valid,
                               data_quality = quality\<rparr>)])"
    using validate_data_loaded[OF assms(1), of rc field valid record_type] loaded
    by (simp add: Let_def)
qed

theorem validate_data_ignores_record_ids_witness:
  "validate_data duplicate_loader =
   validate_data (duplicate_loader\<lparr>unified_data := Some
        \<lparr>columns = [''record_id'', ''record_type'', ''category'', ''pillar'',
                     ''indicator'', ''indicator_code'', ''observation_date''],
         rows = [[Str ''REC_0001'', Str ''observation'', Str ''access'', Str ''ACCESS'',
                  Str ''Account Ownership'', Str ''ACC_OWNERSHIP'', Str ''2014-12-31''],
                 [Str ''REC_0002'', Str ''observation'', Str ''access'', Str ''ACCESS'',
                  Str ''Account Ownership'', Str ''ACC_OWNERSHIP'', Str ''2017-12-31'']]\<rparr>\<rparr>) \<and>
   (\<exists>quality. validate_data duplicate_loader =
      Inr [(''summary'',
            Summary \<lparr>total_records = 2,
                     valid_record_types = [Str ''observation'', Str ''event''],
                     data_quality = quality\<rparr>)])"
proof -
  let ?ud = "the (unified_data duplicate_loader)"
  let ?rc = "the (reference_codes duplicate_loader)"
  let ?ud' = "\<lparr>columns = [''record_id'', ''record_type'', ''category'', ''pillar'',
                     ''indicator'', ''indicator_code'', ''observation_date''],
         rows = [[Str ''REC_0001'', Str ''observation'', Str ''access'', Str ''ACCESS'',
                  Str ''Account Ownership'', Str ''ACC_OWNERSHIP'', Str ''2014-12-31''],
                 [Str ''REC_0002'', Str ''observation'', Str ''access'', Str ''ACCESS'',
                  Str ''Account Ownership'', Str ''ACC_OWNERSHIP'', Str ''2017-12-31'']]\<rparr>"
  let ?field = "[Str ''record_type'', Str ''record_type'']"
  let ?valid = "[Str ''observation'', Str ''event'']"
  let ?rt = "[Str ''observation'', Str ''observation'']"
  have u: "unified_data duplicate_loader = Some ?ud" by (simp add: duplicate_loader_def)
  have same: "columns ?ud' = columns ?ud" "len ?ud' = len ?ud"
      "getitem ?ud' ''record_type'' = getitem ?ud ''record_type''"
    by (simp_all add: duplicate_loader_def getitem_def len_def)
  have loaded: "reference_codes duplicate_loader = Some ?rc \<and>
      getitem ?rc ''field'' = Inr ?field \<and>
      getitem (select_rows ?rc (map (\<lambda>v. v = Str ''record_type'') ?field)) ''code'' =
        Inr ?valid \<and>
      getitem ?ud ''record_type'' = Inr ?rt"
    by (simp add: duplicate_loader_def getitem_def select_rows_def)
  have cols: "filter (\<lambda>col. col \<notin> set (columns ?ud)) required_cols = []"
    by (simp add: duplicate_loader_def required_cols_def)
  have l: "len ?ud = 2" by (simp add: duplicate_loader_def len_def)
  from validate_data_ignores_record_ids[OF u same, of ?rc ?field ?valid ?rt] loaded
  have "validate_data (duplicate_loader\<lparr>unified_data := Some ?ud'\<rparr>) =
          validate_data duplicate_loader"
    and "\<exists>quality. validate_data duplicate_loader =
               Inr ((if filter (\<lambda>col. col \<notin> set (columns ?ud)) required_cols \<noteq> []
                     then [(''missing_columns'',
                            Names (filter (\<lambda>col. col \<notin> set (columns ?ud)) required_cols))]
                     else []) @
                    (if filter (\<lambda>v. v \<notin> set ?valid) ?rt \<noteq> []
                     then [(''invalid_record_types'',
                            Values (unique (filter (\<lambda>v. v \<notin> set ?valid) ?rt)))]
                     else []) @
                    [(''summary'',
                      Summary \<lparr>total_records = len ?ud, valid_record_types = ?valid,
                               data_quality = quality\<rparr>)])"
    by blast+
  then show ?thesis unfolding cols l by simp
qed

subsection \<open>The summarizer\<close>

lemma set_unique: "set (unique xs) = set xs"
  by (simp add: unique_def)

lemma distinct_unique: "distinct (unique xs)"
  by (simp add: unique_def)

lemma count_list_dropna: "v \<noteq> NaN \<Longrightarrow> count_list (filter (\<lambda>v. v \<noteq> NaN) col) v = count_list col v"
  by (induction col) auto

lemma value_counts_set:
  "set (value_counts col) = (\<lambda>v. (v, count_list col v)) ` (set col - {NaN})"
  by (auto simp: value_counts_def Let_def set_unique count_list_dropna)

lemma value_counts_values: "set (map fst (value_counts col)) = set col - {NaN}"
  by (auto simp: value_counts_set image_iff)

lemma value_counts_count: "(v, c) \<in> set (value_counts col) \<Longrightarrow> c = count_list col v"
  by (auto simp: value_counts_set)

lemma value_counts_distinct: "distinct (map fst (value_counts col))"
proof -
  let ?vals = "filter (\<lambda>v. v \<noteq> NaN) col"
  have "distinct (map (\<lambda>v. (v, count_list ?vals v)) (unique ?vals))"
    by (simp add: distinct_map distinct_unique inj_on_def)
  then have "distinct (value_counts col)"
    by (simp add: value_counts_def Let_def)
  moreover have "inj_on fst (set (value_counts col))"
    by (auto simp: inj_on_def value_counts_set)
  ultimately show ?thesis by (simp add: distinct_map)
qed

lemma value_counts_sorted: "sorted_wrt (\<lambda>a b. snd b \<le> snd a) (value_counts col)"
proof -
  have "sorted (map (\<lambda>vc. - int (snd vc)) (value_counts col))"
    unfolding value_counts_def Let_def by (rule sorted_sort_key)
  then show ?thesis by (simp add: sorted_map)
qed

lemma value_counts_all_NaN:
  assumes "set col \<subseteq> {NaN}"
  shows "value_counts col = []"
proof -
  have "set (map fst (value_counts col)) = {}"
    unfolding value_counts_values using assms by blast
  then show ?thesis by simp
qed

lemma getitem_counts_frame:
  "name \<noteq> ''count'' \<Longrightarrow>
   getitem (counts_frame name vc) ''count'' = Inr (map (\<lambda>(v, c). Num (of_nat c)) vc)"
  by (simp add: getitem_def counts_frame_def split_def)

lemma get_data_summary_loaded:
  assumes "unified_data self = Some ud"
    and "getitem ud ''record_type'' = Inr record_type"
    and "getitem ud ''pillar'' = Inr pillar"
    and "getitem ud ''source_type'' = Inr source_type"
    and "getitem ud ''confidence'' = Inr confidence"
  shows "get_data_summary self =
     Inr [(''record_types'',
           \<lparr>columns = [''record_type'', ''count'', ''percentage''],
            rows = map (\<lambda>(v, c). [v, Num (of_nat c), cell_percentage (len ud) (Num (of_nat c))])
                     (value_counts record_type)\<rparr>),
          (''pillars'', counts_frame ''pillar'' (value_counts pillar)),
          (''sources'', counts_frame ''source_type'' (value_counts source_type)),
          (''confidence'', counts_frame ''confidence'' (value_counts confidence))]"
proof -
  have "setitem (counts_frame ''record_type'' vc) ''percentage''
          (map (cell_percentage n) (map (\<lambda>(v, c). Num (of_nat c)) vc)) =
        \<lparr>columns = [''record_type'', ''count'', ''percentage''],
            rows = map (\<lambda>(v, c). [v, Num (of_nat c), cell_percentage n (Num (of_nat c))]) vc\<rparr>" for vc n
    by (simp add: setitem_def counts_frame_def zip_map_map split_def zip_same_conv_map)
  then show ?thesis
    using assms by (simp add: get_data_summary_def Let_def getitem_counts_frame)
qed

lemma summary_raises_record_type:
  assumes "unified_data self = Some ud" and "''record_type'' \<notin> set (columns ud)"
  shows "get_data_summary self = Inl (KeyError ''record_type'')"
  using assms by (simp add: get_data_summary_def getitem_missing)

lemma summary_raises_pillar:
  assumes "unified_data self = Some ud" and "getitem ud ''record_type'' = Inr rt"
    and "''pillar'' \<notin> set (columns ud)"
  shows "get_data_summary self = Inl (KeyError ''pillar'')"
  using assms by (simp add: get_data_summary_def Let_def getitem_missing getitem_counts_frame)

lemma summary_raises_source_type:
  assumes "unified_data self = Some ud" and "getitem ud ''record_type'' = Inr rt"
    and "getitem ud ''pillar'' = Inr pl" and "''source_type'' \<notin> set (columns ud)"
  shows "get_data_summary self = Inl (KeyError ''source_type'')"
  using assms by (simp add: get_data_summary_def Let_def getitem_missing getitem_counts_frame)

lemma summary_raises_confidence:
  assumes "unified_data self = Some ud" and "getitem ud ''record_type'' = Inr rt"
    and "getitem ud ''pillar'' = Inr pl" and "getitem ud ''source_type'' = Inr st"
    and "''confidence'' \<notin> set (columns ud)"
  shows "get_data_summary self = Inl (KeyError ''confidence'')"
  using assms by (simp add: get_data_summary_def Let_def getitem_missing getitem_counts_frame)

lemma grouping_fields:
  "fst ` set grouping = {''record_type'', ''pillar'', ''source_type'', ''confidence''}"
  by (simp add: grouping_def)

lemma get_data_summary_missing:
  assumes "unified_data self = Some ud"
    and "field \<in> set (map fst grouping)" and "field \<notin> set (columns ud)"
  shows "\<exists>f. find (\<lambda>f. f \<notin> set (columns ud)) (map fst grouping) = Some f \<and>
             get_data_summary self = Inl (KeyError f)"
proof (cases "''record_type'' \<in> set (columns ud)")
  case False
  with summary_raises_record_type[OF assms(1)] show ?thesis
    by (intro exI[of _ "''record_type''"]) (simp add: grouping_def)
next
  case c1: True
  then obtain rt where rt: "getitem ud ''record_type'' = Inr rt"
    using getitem_present by blast
  show ?thesis
  proof (cases "''pillar'' \<in> set (columns ud)")
    case False
    with summary_raises_pillar[OF assms(1) rt] c1 show ?thesis
      by (intro exI[of _ "''pillar''"]) (simp add: grouping_def)
  next
    case c2: True
    then obtain pl where pl: "getitem ud ''pillar'' = Inr pl"
      using getitem_present by blast
    show ?thesis
    proof (cases "''source_type'' \<in> set (columns ud)")
      case False
      with summary_raises_source_type[OF assms(1) rt pl] c1 c2 show ?thesis
        by (intro exI[of _ "''source_type''"]) (simp add: grouping_def)
    next
      case c3: True
      then obtain st where st: "getitem ud ''source_type'' = Inr st"
        using getitem_present by blast
      have "field = ''record_type'' \<or> field = ''pillar'' \<or> field = ''source_type'' \<or>
            field = ''confidence''"
        using assms(2) by (simp add: grouping_fields)
      with assms(3) c1 c2 c3 have "''confidence'' \<notin> set (columns ud)"
        by (elim disjE) simp_all
      with summary_raises_confidence[OF assms(1) rt pl st] c1 c2 c3 show ?thesis
        by (intro exI[of _ "''confidence''"]) (simp add: grouping_def)
    qed
  qed
qed

lemma get_data_summary_all_null:
  assumes "unified_data self = Some ud"
    and "set (map fst grouping) \<subseteq> set (columns ud)"
    and "(field, key) \<in> set grouping"
    and "getitem ud field = Inr col" and "set col \<subseteq> {NaN}"
  shows "\<exists>summary table. get_data_summary self = Inr summary \<and>
            map_of summary key = Some table \<and> rows table = []"
proof -
  have cols: "''record_type'' \<in> set (columns ud) \<and> ''pillar'' \<in> set (columns ud) \<and>
      ''source_type'' \<in> set (columns ud) \<and> ''confidence'' \<in> set (columns ud)"
    using assms(2) by (simp add: grouping_fields)
  obtain rt where rt: "getitem ud ''record_type'' = Inr rt"
    using cols getitem_present by blast
  obtain pl where pl: "getitem ud ''pillar'' = Inr pl"
    using cols getitem_present by blast
  obtain st where st: "getitem ud ''source_type'' = Inr st"
    using cols getitem_present by blast
  obtain cf where cf: "getitem ud ''confidence'' = Inr cf"
    using cols getitem_present by blast
  note eq = get_data_summary_loaded[OF assms(1) rt pl st cf]
  have empty: "value_counts col = []" using assms(5) by (rule value_counts_all_NaN)
  have "(field = ''record_type'' \<and> key = ''record_types'') \<or>
        (field = ''pillar'' \<and> key = ''pillars'') \<or>
        (field = ''source_type'' \<and> key = ''sources'') \<or>
        (field = ''confidence'' \<and> key = ''confidence'')"
    using assms(3) by (simp add: grouping_def)
  then show ?thesis
  proof (elim disjE conjE)
    assume f: "field = ''record_type''" "key = ''record_types''"
    with assms(4) rt have "col = rt" by simp
    with empty f show ?thesis unfolding eq by simp
  next
    assume f: "field = ''pillar''" "key = ''pillars''"
    with assms(4) pl have "col = pl" by simp
    with empty f show ?thesis unfolding eq by (simp add: counts_frame_def)
  next
    assume f: "field = ''source_type''" "key = ''sources''"
    with assms(4) st have "col = st" by simp
    with empty f show ?thesis unfolding eq by (simp add: counts_frame_def)
  next
    assume f: "field = ''confidence''" "key = ''confidence''"
    with assms(4) cf have "col = cf" by simp
    with empty f show ?thesis unfolding eq by (simp add: counts_frame_def)
  qed
qed

text \<open>
  C5, as stated, fails: when the table has no \<^verbatim>\<open>pillar\<close> column at all the summarizer
  raises \<^verbatim>\<open>KeyError\<close>.
\<close>

theorem summary_missing_column_raises:
  "get_data_summary no_pillar_loader = Inl (KeyError ''pillar'')"
  by code_simp

text \<open>
  C5, amended. For each of the four grouping fields: when the table lacks the column, the
  summarizer raises \<^verbatim>\<open>KeyError\<close>, naming the first grouping column that is missing in
  the order record\_type, pillar, source\_type, confidence; when all four columns exist and
  the field is empty (\<open>NaN\<close>) in every record, the summarizer returns normally and the
  table of that field has no rows.
\<close>

theorem get_data_summary_absent_field:
  assumes "unified_data self = Some ud" and "(field, key) \<in> set grouping"
  shows "(field \<notin> set (columns ud) \<longrightarrow>
            (\<exists>f. find (\<lambda>f. f \<notin> set (columns ud))
                    [''record_type'', ''pillar'', ''source_type'', ''confidence''] = Some f \<and>
                 get_data_summary self = Inl (KeyError f))) \<and>
         (set (map fst grouping) \<subseteq> set (columns ud) \<and> getitem ud field = Inr col \<and>
          set col \<subseteq> {NaN} \<longrightarrow>
            (\<exists>summary table. get_data_summary self = Inr summary \<and>
                 map_of summary key = Some table \<and> rows table = []))"
proof (intro conjI impI)
  assume "field \<notin> set (columns ud)"
  moreover have "field \<in> set (map fst grouping)"
    using assms(2) by (simp add: image_iff) (metis fst_conv)
  moreover have "map fst grouping = [''record_type'', ''pillar'', ''source_type'', ''confidence'']"
    by (simp add: grouping_def)
  ultimately show "\<exists>f. find (\<lambda>f. f \<notin> set (columns ud))
                    [''record_type'', ''pillar'', ''source_type'', ''confidence''] = Some f \<and>
                 get_data_summary self = Inl (KeyError f)"
    using get_data_summary_missing[OF assms(1), of field] by simp
next
  assume "set (map fst grouping) \<subseteq> set (columns ud) \<and> getitem ud field = Inr col \<and>
          set col \<subseteq> {NaN}"
  then show "\<exists>summary table. get_data_summary self = Inr summary \<and>
                 map_of summary key = Some table \<and> rows table = []"
    using get_data_summary_all_null[OF assms(1) _ assms(2)] by blast
qed

theorem get_data_summary_absent_field_witness:
  "get_data_summary no_pillar_confidence_loader = Inl (KeyError ''pillar'') \<and>
   (\<exists>summary table. get_data_summary null_pillar_loader = Inr summary \<and>
        map_of summary ''pillars'' = Some table \<and> rows table = [])"
proof -
  let ?ud = "the (unified_data no_pillar_confidence_loader)"
  have a: "unified_data no_pillar_confidence_loader = Some ?ud"
    by (simp add: no_pillar_confidence_loader_def)
  have g: "(''confidence'', ''confidence'') \<in> set grouping" by (simp add: grouping_def)
  have g': "(''pillar'', ''pillars'') \<in> set grouping" by (simp add: grouping_def)
  have m: "''confidence'' \<notin> set (columns ?ud)"
    by (simp add: no_pillar_confidence_loader_def)
  have f: "find (\<lambda>f. f \<notin> set (columns ?ud))
             [''record_type'', ''pillar'', ''source_type'', ''confidence''] = Some ''pillar''"
    by (simp add: no_pillar_confidence_loader_def)
  have b: "unified_data null_pillar_loader = Some (the (unified_data null_pillar_loader))"
    by (simp add: null_pillar_loader_def)
  have p: "set (map fst grouping) \<subseteq> set (columns (the (unified_data null_pillar_loader))) \<and>
           getitem (the (unified_data null_pillar_loader)) ''pillar'' = Inr [NaN, NaN] \<and>
           set [NaN, NaN] \<subseteq> {NaN}"
    by (simp add: null_pillar_loader_def grouping_def getitem_def)
  from get_data_summary_absent_field[OF a g, of "[]"] m f
  have "get_data_summary no_pillar_confidence_loader = Inl (KeyError ''pillar'')"
    by simp
  moreover from get_data_summary_absent_field[OF b g', of "[NaN, NaN]"] p
  have "\<exists>summary table. get_data_summary null_pillar_loader = Inr summary \<and>
        map_of summary ''pillars'' = Some table \<and> rows table = []"
    by blast
  ultimately show ?thesis by simp
qed

text \<open>
  C6, as stated, fails: the table of pillars maps each value to its count only; it has no
  percentage column. The same holds for the tables of source types and of confidence.
\<close>

theorem summary_pillars_without_percentage:
  "(case get_data_summary summary_example of
      Inl e \<Rightarrow> None
    | Inr summary \<Rightarrow> map_of summary ''pillars'') =
   Some \<lparr>columns = [''pillar'', ''count''],
         rows = [[Str ''ACCESS'', Num 5], [Str ''USAGE'', Num 3]]\<rparr>"
  by code_simp

text \<open>
  The percentage is a binary64 computation, not a decimal one: 23 records of 80 are
  28.75 per cent, but the product of the binary64 quotient and 100 lies just below that
  tie, so the code reports 28.7.
\<close>

lemma percentage_of_23_in_80: "cell_percentage 80 (Num 23) = Num (fl (287 / 10))"
  by code_simp

text \<open>
  C6, amended. When the four grouping columns exist (in a table of fewer than \<open>2 ^ 63\<close>
  rows, as every frame is), the summarizer returns four tables. Each lists every value
  observed in its column (missing values apart) exactly once, with the number of records
  that carry it, sorted by that count, largest first. The table of record types alone
  carries a third column, the percentage: the binary64 quotient of count and number of
  records, times 100, rounded to one decimal by numpy's \<^verbatim>\<open>round\<close>. The tables of
  pillars, source types and confidence carry counts only. For eight observations and two
  events the table of record types reports observation: (8, 80.0) and event: (2, 20.0).
\<close>

theorem get_data_summary_frequency_tables:
  assumes "unified_data self = Some ud" and "len ud < 2 ^ 63"
    and "getitem ud ''record_type'' = Inr record_type"
    and "getitem ud ''pillar'' = Inr pillar"
    and "getitem ud ''source_type'' = Inr source_type"
    and "getitem ud ''confidence'' = Inr confidence"
  shows "get_data_summary self =
     Inr [(''record_types'',
           \<lparr>columns = [''record_type'', ''count'', ''percentage''],
            rows = map (\<lambda>(v, c).
                          [v, Num (of_nat c),
                           Num (round1 (fl (fl (fl (of_nat c) / fl (of_nat (len ud))) * 100)))])
                     (value_counts record_type)\<rparr>),
          (''pillars'',
           \<lparr>columns = [''pillar'', ''count''],
            rows = map (\<lambda>(v, c). [v, Num (of_nat c)]) (value_counts pillar)\<rparr>),
          (''sources'',
           \<lparr>columns = [''source_type'', ''count''],
            rows = map (\<lambda>(v, c). [v, Num (of_nat c)]) (value_counts source_type)\<rparr>),
          (''confidence'',
           \<lparr>columns = [''confidence'', ''count''],
            rows = map (\<lambda>(v, c). [v, Num (of_nat c)]) (value_counts confidence)\<rparr>)] \<and>
     (\<forall>col \<in> {record_type, pillar, source_type, confidence}.
        distinct (map fst (value_counts col)) \<and>
        set (map fst (value_counts col)) = set col - {NaN} \<and>
        (\<forall>(v, c) \<in> set (value_counts col). c = count_list col v) \<and>
        sorted_wrt (\<lambda>a b. snd b \<le> snd a) (value_counts col))"
proof -
  have "distinct (map fst (value_counts col)) \<and>
        set (map fst (value_counts col)) = set col - {NaN} \<and>
        (\<forall>(v, c) \<in> set (value_counts col). c = count_list col v) \<and>
        sorted_wrt (\<lambda>a b. snd b \<le> snd a) (value_counts col)" for col
    using value_counts_distinct[of col] value_counts_values[of col] value_counts_sorted[of col]
      value_counts_count[of _ _ col]
    by auto
  then show ?thesis
    using get_data_summary_loaded[OF assms(1,3-6)]
    by (simp add: counts_frame_def cell_percentage_def)
qed

theorem get_data_summary_frequency_tables_witness:
  "get_data_summary summary_example =
     Inr [(''record_types'',
           \<lparr>columns = [''record_type'', ''count'', ''percentage''],
            rows = [[Str ''observation'', Num 8, Num 80], [Str ''event'', Num 2, Num 20]]\<rparr>),
          (''pillars'',
           \<lparr>columns = [''pillar'', ''count''],
            rows = [[Str ''ACCESS'', Num 5], [Str ''USAGE'', Num 3]]\<rparr>),
          (''sources'',
           \<lparr>columns = [''source_type'', ''count''],
            rows = [[Str ''survey'', Num 4], [Str ''operator'', Num 3],
                    [Str ''regulator'', Num 2], [Str ''news'', Num 1]]\<rparr>),
          (''confidence'',
           \<lparr>columns = [''confidence'', ''count''],
            rows = [[Str ''high'', Num 7], [Str ''medium'', Num 3]]\<rparr>)]"
proof -
  let ?ud = "the (unified_data summary_example)"
  have u: "unified_data summary_example = Some ?ud" by (simp add: summary_example_def)
  have l: "len ?ud = 10" by (simp add: summary_example_def len_def)
  have b: "len ?ud < 2 ^ 63" unfolding l by simp
  have c1: "getitem ?ud ''record_type'' = Inr (map (\<lambda>r. r ! 0) (rows ?ud))"
    by (simp add: summary_example_def getitem_def)
  have c2: "getitem ?ud ''pillar'' = Inr (map (\<lambda>r. r ! 1) (rows ?ud))"
    by (simp add: summary_example_def getitem_def)
  have c3: "getitem ?ud ''source_type'' = Inr (map (\<lambda>r. r ! 2) (rows ?ud))"
    by (simp add: summary_example_def getitem_def)
  have c4: "getitem ?ud ''confidence'' = Inr (map (\<lambda>r. r ! 3) (rows ?ud))"
    by (simp add: summary_example_def getitem_def)
  have v1: "value_counts (map (\<lambda>r. r ! 0) (rows ?ud)) =
      [(Str ''observation'', 8), (Str ''event'', 2)]"
    by code_simp
  have v2: "value_counts (map (\<lambda>r. r ! 1) (rows ?ud)) = [(Str ''ACCESS'', 5), (Str ''USAGE'', 3)]"
    by code_simp
  have v3: "value_counts (map (\<lambda>r. r ! 2) (rows ?ud)) =
      [(Str ''survey'', 4), (Str ''operator'', 3), (Str ''regulator'', 2), (Str ''news'', 1)]"
    by code_simp
  have v4: "value_counts (map (\<lambda>r. r ! 3) (rows ?ud)) = [(Str ''high'', 7), (Str ''medium'', 3)]"
    by code_simp
  have r1: "round1 (fl (fl (fl 8 / fl 10) * 100)) = 80"
           "round1 (fl (fl (fl 2 / fl 10) * 100)) = 20"
    by code_simp+
  from get_data_summary_frequency_tables[OF u b c1 c2 c3 c4]
  have "get_data_summary summary_example =
     Inr [(''record_types'',
           \<lparr>columns = [''record_type'', ''count'', ''percentage''],
            rows = map (\<lambda>(v, c).
                          [v, Num (of_nat c),
                           Num (round1 (fl (fl (fl (of_nat c) / fl (of_nat (len ?ud))) * 100)))])
                     (value_counts (map (\<lambda>r. r ! 0) (rows ?ud)))\<rparr>),
          (''pillars'',
           \<lparr>columns = [''pillar'', ''count''],
            rows = map (\<lambda>(v, c). [v, Num (of_nat c)])
                     (value_counts (map (\<lambda>r. r ! 1) (rows ?ud)))\<rparr>),
          (''sources'',
           \<lparr>columns = [''source_type'', ''count''],
            rows = map (\<lambda>(v, c). [v, Num (of_nat c)])
                     (value_counts (map (\<lambda>r. r ! 2) (rows ?ud)))\<rparr>),
          (''confidence'',
           \<lparr>columns = [''confidence'', ''count''],
            rows = map (\<lambda>(v, c). [v, Num (of_nat c)])
                     (value_counts (map (\<lambda>r. r ! 3) (rows ?ud)))\<rparr>)]"
    by (rule conjunct1)
  then show ?thesis unfolding v1 v2 v3 v4 l by (simp add: r1)
qed

text \<open>
  C10, as stated, fails: when the record table is loaded and only the reference codes are
  missing, the validator returns the error dictionary but the summarizer returns its four
  tables, not an empty dictionary.
\<close>

theorem summary_without_codes:
  "reference_codes no_codes_loader = None \<and>
   get_data_summary no_codes_loader =
     Inr [(''record_types'',
           \<lparr>columns = [''record_type'', ''count'', ''percentage''],
            rows = [[Str ''observation'', Num 1, Num 100]]\<rparr>),
          (''pillars'', \<lparr>columns = [''pillar'', ''count''], rows = [[Str ''ACCESS'', Num 1]]\<rparr>),
          (''sources'',
           \<lparr>columns = [''source_type'', ''count''], rows = [[Str ''survey'', Num 1]]\<rparr>),
          (''confidence'',
           \<lparr>columns = [''confidence'', ''count''], rows = [[Str ''high'', Num 1]]\<rparr>)]"
  by code_simp

text \<open>
  C10, amended. When either table is not loaded the validator returns exactly
  \<^verbatim>\<open>{"error": "Data not loaded"}\<close>. The summarizer returns the empty dictionary when
  the record table is not loaded; it never reads the reference codes, so their absence
  alone does not change its result.
\<close>

theorem not_loaded:
  "(unified_data self = None \<or> reference_codes self = None \<longrightarrow>
      validate_data self = Inr [(''error'', Message ''Data not loaded'')]) \<and>
   (unified_data self = None \<longrightarrow> get_data_summary self = Inr []) \<and>
   get_data_summary (self\<lparr>reference_codes := rc\<rparr>) = get_data_summary self"
  by (auto simp: validate_data_def get_data_summary_def split: option.splits)

theorem not_loaded_witness:
  "validate_data empty_loader = Inr [(''error'', Message ''Data not loaded'')] \<and>
   get_data_summary empty_loader = Inr [] \<and>
   validate_data no_codes_loader = Inr [(''error'', Message ''Data not loaded'')]"
  using not_loaded[of empty_loader] not_loaded[of no_codes_loader]
  by (simp add: empty_loader_def no_codes_loader_def)

section \<open>Derived metrics (src/dashboard/app.py)\<close>

text \<open>
  The numbers of the dashboard are \<^verbatim>\<open>numpy.float64\<close> scalars taken out of pandas
  frames (\<^verbatim>\<open>iloc[i][column]\<close>, \<^verbatim>\<open>.values\<close>). Their arithmetic never raises: a division
  by zero gives an infinity, or NaN for zero by zero, with a warning. A value is a finite
  number (\<open>Fin x\<close>, with \<open>Fin 0\<close> the positive zero), the negative zero, one of the two
  infinities or NaN. Each operation gives the result the IEEE 754 standard prescribes:
  the special cases first, otherwise the exact result rounded by \<open>to_float64\<close>.
\<close>

datatype float64 = Fin rat | NegZero | PInf | NInf | FNaN

definition is_zero :: "float64 \<Rightarrow> bool" where
  "is_zero a = (a = Fin 0 \<or> a = NegZero)"

definition is_inf :: "float64 \<Rightarrow> bool" where
  "is_inf a = (a = PInf \<or> a = NInf)"

text \<open>The sign bit, and the number a finite value denotes.\<close>

fun negative :: "float64 \<Rightarrow> bool" where
  "negative (Fin x) = (x < 0)"
| "negative NegZero = True"
| "negative NInf = True"
| "negative PInf = False"
| "negative FNaN = False"

fun val :: "float64 \<Rightarrow> rat" where
  "val (Fin x) = x"
| "val _ = 0"

definition signed_zero :: "bool \<Rightarrow> float64" where
  "signed_zero neg = (if neg then NegZero else Fin 0)"

definition signed_inf :: "bool \<Rightarrow> float64" where
  "signed_inf neg = (if neg then NInf else PInf)"

text \<open>
  The binary64 value of an exact result: rounded to nearest; a result that rounds to zero
  keeps its sign, and one that rounds to \<open>2 ^ 1024\<close> or beyond in magnitude is an
  infinity.
\<close>

definition to_float64 :: "rat \<Rightarrow> float64" where
  "to_float64 x =
     (let r = fl x in
      if r = 0 then signed_zero (x < 0)
      else if 1024 \<le> exponent r then signed_inf (x < 0)
      else Fin r)"

text \<open>The conversion of a Python integer that takes part in a float operation.\<close>

definition float_of_int :: "int \<Rightarrow> float64" where
  "float_of_int i = to_float64 (of_int i)"

text \<open>True division \<^verbatim>\<open>/\<close>.\<close>

definition fdiv :: "float64 \<Rightarrow> float64 \<Rightarrow> float64" where
  "fdiv a b =
     (if a = FNaN \<or> b = FNaN then FNaN
      else if is_inf a then (if is_inf b then FNaN else signed_inf (negative a \<noteq> negative b))
      else if is_inf b then signed_zero (negative a \<noteq> negative b)
      else if is_zero b then (if is_zero a then FNaN else signed_inf (negative a \<noteq> negative b))
      else if is_zero a then signed_zero (negative a \<noteq> negative b)
      else to_float64 (val a / val b))"

definition fmul :: "float64 \<Rightarrow> float64 \<Rightarrow> float64" where
  "fmul a b =
     (if a = FNaN \<or> b = FNaN then FNaN
      else if is_inf a \<or> is_inf b
        then (if is_zero a \<or> is_zero b then FNaN else signed_inf (negative a \<noteq> negative b))
      else if is_zero a \<or> is_zero b then signed_zero (negative a \<noteq> negative b)
      else to_float64 (val a * val b))"

text \<open>
  Subtraction. An exact difference of zero is the positive zero, except for the negative
  zero minus the positive zero.
\<close>

definition fsub :: "float64 \<Rightarrow> float64 \<Rightarrow> float64" where
  "fsub a b =
     (if a = FNaN \<or> b = FNaN then FNaN
      else if is_inf a then (if is_inf b \<and> negative a = negative b then FNaN else a)
      else if is_inf b then signed_inf (\<not> negative b)
      else if val a - val b = 0 then signed_zero (a = NegZero \<and> b = Fin 0)
      else to_float64 (val a - val b))"

text \<open>The comparison \<^verbatim>\<open>>=\<close>; it is false whenever one side is NaN.\<close>

definition fge :: "float64 \<Rightarrow> float64 \<Rightarrow> bool" where
  "fge a b =
     (if a = FNaN \<or> b = FNaN then False
      else if a = PInf \<or> b = NInf then True
      else if is_inf a \<or> is_inf b then False
      else val b \<le> val a)"

subsection \<open>Growth percentages\<close>

text \<open>
  The expression \<^verbatim>\<open>((b / a) - 1) * 100\<close> of lines 273, 518, 522 and 526, with \<open>b\<close> the
  later and \<open>a\<close> the earlier value. No line around it tests \<open>a\<close>.
\<close>

definition growth_pct :: "float64 \<Rightarrow> float64 \<Rightarrow> float64" where
  "growth_pct b a = fmul (fsub (fdiv b a) (Fin 1)) (Fin 100)"

text \<open>
  The overview card (lines 269 to 275), from the \<^verbatim>\<open>value_numeric\<close> column of the P2P
  observations, which the enclosing test \<^verbatim>\<open>not p2p_data.empty\<close> makes non-empty:
  the last value against the one before it, both in millions; \<^verbatim>\<open>None\<close> for a single
  observation.
\<close>

definition delta_pct :: "float64 list \<Rightarrow> float64 option" where
  "delta_pct value_numeric =
     (let latest_p2p = fdiv (last value_numeric) (Fin 1000000) in
      if 1 < length value_numeric
      then (let prev_p2p = fdiv (value_numeric ! (length value_numeric - 2)) (Fin 1000000)
            in Some (growth_pct latest_p2p prev_p2p))
      else None)"

text \<open>
  The P2P tab: the column \<^verbatim>\<open>value_millions\<close> (lines 474 and 477) and the three growth
  figures of lines 514 to 527, computed from the \<^verbatim>\<open>value_millions\<close> columns of the
  forecast and of the historical observations, and shown only when there are three
  forecast rows and a historical one.
\<close>

definition value_millions :: "float64 list \<Rightarrow> float64 list" where
  "value_millions vs = map (\<lambda>v. fdiv v (Fin 1000000)) vs"

definition growth_metrics ::
  "float64 list \<Rightarrow> float64 list \<Rightarrow> (float64 \<times> float64 \<times> float64) option" where
  "growth_metrics forecast_p2p historical_p2p =
     (if 3 \<le> length forecast_p2p \<and> 0 < length historical_p2p
      then (let growth_2025 = growth_pct (forecast_p2p ! 0) (last historical_p2p);
                growth_2026 = growth_pct (forecast_p2p ! 1) (forecast_p2p ! 0);
                cumulative = growth_pct (forecast_p2p ! 2) (last historical_p2p)
            in Some (growth_2025, growth_2026, cumulative))
      else None)"

subsection \<open>Growth by period\<close>







subsection \<open>Milestones\<close>

text \<open>
  The loop of lines 731 to 738. A milestone is the triple of year, threshold and label
  that the code appends. Each of the three \<^verbatim>\<open>if\<close> statements of the loop body is an
  instance of \<open>reach\<close>: the threshold is recorded when the value has reached it and no
  recorded milestone carries it yet. The thresholds 50, 60 and 70 are literals of the
  code.
\<close>

type_synonym milestone = "int \<times> int \<times> string"

definition reach :: "int \<Rightarrow> string \<Rightarrow> int \<Rightarrow> float64 \<Rightarrow> milestone list \<Rightarrow> milestone list" where
  "reach threshold label year proj milestones =
     (if fge proj (Fin (of_int threshold)) \<and>
         threshold \<notin> set (map (\<lambda>m. fst (snd m)) milestones)
      then milestones @ [(year, threshold, label)] else milestones)"

definition milestone_step :: "milestone list \<Rightarrow> int \<times> float64 \<Rightarrow> milestone list" where
  "milestone_step milestones yp =
     (case yp of (year, proj) \<Rightarrow>
        reach 70 ''NFIS-II target achieved'' year proj
          (reach 60 ''Majority inclusion milestone'' year proj
             (reach 50 ''Half of adults with accounts'' year proj milestones)))"

definition milestones :: "int list \<Rightarrow> float64 list \<Rightarrow> milestone list" where
  "milestones years projections = foldl milestone_step [] (zip years projections)"

text \<open>
  The specification's words for the result, to compare the loop with: the first year, in
  the order of the sequence, at which the value is at least the threshold.
\<close>

definition first_crossing :: "float64 \<Rightarrow> (int \<times> float64) list \<Rightarrow> int option" where
  "first_crossing threshold series =
     map_option fst (find (\<lambda>(year, v). fge v threshold) series)"

text \<open>The milestones in a result that carry a given threshold.\<close>

definition reported :: "int \<Rightarrow> milestone list \<Rightarrow> milestone list" where
  "reported threshold ms = filter (\<lambda>m. fst (snd m) = threshold) ms"

subsection \<open>Operations on finite values\<close>

lemma is_zero_simps [simp]:
  "is_zero (Fin x) = (x = 0)" "is_zero NegZero" "\<not> is_zero PInf" "\<not> is_zero NInf"
  "\<not> is_zero FNaN"
  by (simp_all add: is_zero_def)

lemma is_inf_simps [simp]:
  "\<not> is_inf (Fin x)" "\<not> is_inf NegZero" "is_inf PInf" "is_inf NInf" "\<not> is_inf FNaN"
  by (simp_all add: is_inf_def)

lemma is_inf_signed_inf [simp]: "is_inf (signed_inf n)" "signed_inf n \<noteq> FNaN"
  "negative (signed_inf n) = n" "\<not> is_zero (signed_inf n)"
  by (simp_all add: signed_inf_def)

lemma fge_Fin [simp]: "fge (Fin x) (Fin y) = (y \<le> x)"
  by (simp add: fge_def)

text \<open>Powers of two from \<open>2 ^ 1024\<close> on are beyond the finite values.\<close>

lemma to_float64_overflow: "1024 \<le> e \<Longrightarrow> to_float64 (pow2 e) = PInf"
  using pow2_pos[of e] by (simp add: to_float64_def fl_pow2 Let_def signed_inf_def)

lemma to_float64_pow2: "- 1022 \<le> e \<Longrightarrow> e < 1024 \<Longrightarrow> to_float64 (pow2 e) = Fin (pow2 e)"
  using pow2_pos[of e] by (simp add: to_float64_def fl_pow2 Let_def)

lemma fdiv_by_zero:
  "is_zero a \<Longrightarrow>
   fdiv b a = (if b = FNaN \<or> is_zero b then FNaN else signed_inf (negative b \<noteq> negative a))"
  by (cases a; cases b) (auto simp: fdiv_def)

lemma fsub_inf [simp]: "fsub (signed_inf n) (Fin x) = signed_inf n"
  by (simp add: fsub_def)

lemma fmul_inf [simp]: "0 < x \<Longrightarrow> fmul (signed_inf n) (Fin x) = signed_inf n"
  by (simp add: fmul_def)

lemma growth_pct_by_zero:
  "is_zero a \<Longrightarrow>
   growth_pct b a =
     (if b = FNaN \<or> is_zero b then FNaN else signed_inf (negative b \<noteq> negative a))"
  by (simp add: growth_pct_def fdiv_by_zero fsub_def fmul_def)

subsection \<open>Properties of the growth percentage\<close>

lemma delta_pct_last_two:
  "delta_pct (vs @ [a, b]) =
     Some (growth_pct (fdiv b (Fin 1000000)) (fdiv a (Fin 1000000)))"
proof -
  have "(vs @ [a, b]) ! length vs = a" by (simp add: nth_append)
  then show ?thesis by (simp add: delta_pct_def Let_def)
qed

text \<open>
  C4, as stated, fails: with an earlier value of zero nothing is raised; the card's
  percentage is plus infinity.
\<close>

theorem delta_pct_zero_denominator:
  "delta_pct [Fin 0, Fin 157100000] = Some PInf"
  by code_simp

text \<open>
  C4, amended. For every pair of binary64 values the growth percentage is the float
  expression \<open>((b / a) - 1) * 100\<close>, each operation rounded to nearest and overflowing
  to an infinity, and no error is ever raised. When \<open>a\<close> is zero the result is NaN if
  \<open>b\<close> is zero or NaN, and otherwise an infinity: with the sign of \<open>b\<close> for the positive
  zero, with the opposite sign for the negative zero. A quotient beyond the finite values
  is an infinity too, as for \<open>b = 2 ^ 600\<close> and \<open>a = 2 ^ -600\<close>. The overview card applies the
  expression to the last two observations, each first divided by a million, which leaves
  a zero a zero of the same sign; the P2P tab applies it to its values in millions. For
  \<open>a = 150.0e6\<close> and \<open>b = 157.1e6\<close> the card's result is the binary64 value
  \<open>5329259559055075 / 2 ^ 50\<close>, within a thousandth of 4.733.
\<close>

theorem growth_pct_unguarded:
  "growth_pct b a = fmul (fsub (fdiv b a) (Fin 1)) (Fin 100) \<and>
   growth_pct b (Fin 0) =
     (if b = FNaN \<or> is_zero b then FNaN else signed_inf (negative b)) \<and>
   growth_pct b NegZero =
     (if b = FNaN \<or> is_zero b then FNaN else signed_inf (\<not> negative b)) \<and>
   delta_pct (vs @ [a, b]) =
     Some (growth_pct (fdiv b (Fin 1000000)) (fdiv a (Fin 1000000))) \<and>
   fdiv (Fin 0) (Fin 1000000) = Fin 0 \<and>
   fdiv NegZero (Fin 1000000) = NegZero \<and>
   growth_metrics (f0 # f1 # f2 # fs) (hs @ [h]) =
     Some (growth_pct f0 h, growth_pct f1 f0, growth_pct f2 h) \<and>
   delta_pct [Fin 150000000, Fin 157100000] = Some (Fin (5329259559055075 / 2 ^ 50)) \<and>
   \<bar>5329259559055075 / 2 ^ 50 - 4733 / 1000\<bar> < (1 / 1000 :: rat) \<and>
   growth_pct (Fin (pow2 600)) (Fin (pow2 (- 600))) = PInf"
proof -
  have "pow2 600 / pow2 (- 600) = pow2 1200"
    using pow2_add[of 1200 "- 600"] pow2_pos[of "- 600"] by simp
  then have "fdiv (Fin (pow2 600)) (Fin (pow2 (- 600))) = PInf"
    using pow2_pos[of 600] pow2_pos[of "- 600"] to_float64_overflow[of 1200]
    by (simp add: fdiv_def)
  then have o: "growth_pct (Fin (pow2 600)) (Fin (pow2 (- 600))) = PInf"
    using fsub_inf[of False 1] fmul_inf[of 100 False]
    by (simp add: growth_pct_def signed_inf_def)
  have z: "growth_pct b (Fin 0) =
     (if b = FNaN \<or> is_zero b then FNaN else signed_inf (negative b))"
    using growth_pct_by_zero[of "Fin 0" b] by simp
  have n: "growth_pct b NegZero =
     (if b = FNaN \<or> is_zero b then FNaN else signed_inf (\<not> negative b))"
    using growth_pct_by_zero[of NegZero b] by simp
  have m: "fdiv (Fin 0) (Fin 1000000) = Fin 0" "fdiv NegZero (Fin 1000000) = NegZero"
    by (simp_all add: fdiv_def signed_zero_def)
  have g: "growth_metrics (f0 # f1 # f2 # fs) (hs @ [h]) =
     Some (growth_pct f0 h, growth_pct f1 f0, growth_pct f2 h)"
    by (simp add: growth_metrics_def Let_def)
  have e: "delta_pct [Fin 150000000, Fin 157100000] = Some (Fin (5329259559055075 / 2 ^ 50))"
    by code_simp
  have c: "\<bar>5329259559055075 / 2 ^ 50 - 4733 / 1000\<bar> < (1 / 1000 :: rat)" by simp
  from z n m g e c o delta_pct_last_two[of vs a b] show ?thesis
    by (simp add: growth_pct_def)
qed

subsection \<open>Properties of the growth by period\<close>

lemma float_of_int_0 [simp]: "float_of_int 0 = Fin 0"
  by (simp add: float_of_int_def to_float64_def fl_def signed_zero_def)








subsection \<open>Properties of the milestones\<close>

lemma reported_empty: "reported t ms = [] \<longleftrightarrow> t \<notin> set (map (\<lambda>m. fst (snd m)) ms)"
  by (auto simp: reported_def filter_empty_conv)

lemma reported_reach_same:
  "reported t (reach t l y v ms) =
     (if fge v (Fin (of_int t)) \<and> reported t ms = [] then [(y, t, l)] else reported t ms)"
  using reported_empty[of t ms] by (auto simp: reach_def reported_def)

lemma reported_reach_other:
  "t \<noteq> t' \<Longrightarrow> reported t (reach t' l y v ms) = reported t ms"
  by (simp add: reach_def reported_def)

lemma reported_step_50:
  "reported 50 (milestone_step ms (y, v)) =
     (if fge v (Fin 50) \<and> reported 50 ms = [] then [(y, 50, ''Half of adults with accounts'')]
      else reported 50 ms)"
  using reported_reach_same[of 50 "''Half of adults with accounts''" y v ms]
  by (simp add: milestone_step_def reported_reach_other)

lemma reported_step_60:
  "reported 60 (milestone_step ms (y, v)) =
     (if fge v (Fin 60) \<and> reported 60 ms = [] then [(y, 60, ''Majority inclusion milestone'')]
      else reported 60 ms)"
  using reported_reach_same[of 60 "''Majority inclusion milestone''" y v
      "reach 50 ''Half of adults with accounts'' y v ms"]
  by (simp add: milestone_step_def reported_reach_other)

lemma reported_step_70:
  "reported 70 (milestone_step ms (y, v)) =
     (if fge v (Fin 70) \<and> reported 70 ms = [] then [(y, 70, ''NFIS-II target achieved'')]
      else reported 70 ms)"
  using reported_reach_same[of 70 "''NFIS-II target achieved''" y v
      "reach 60 ''Majority inclusion milestone'' y v
         (reach 50 ''Half of adults with accounts'' y v ms)"]
  by (simp add: milestone_step_def reported_reach_other)

lemma reported_foldl:
  assumes step: "\<And>ms y v. reported t (milestone_step ms (y, v)) =
     (if fge v (Fin (of_int t)) \<and> reported t ms = [] then [(y, t, l)] else reported t ms)"
  shows "reported t (foldl milestone_step ms series) =
     (if reported t ms \<noteq> [] then reported t ms
      else (case first_crossing (Fin (of_int t)) series of
              None \<Rightarrow> [] | Some y \<Rightarrow> [(y, t, l)]))"
proof (induction series arbitrary: ms)
  case Nil
  then show ?case by (simp add: first_crossing_def)
next
  case (Cons p series)
  obtain y v where p: "p = (y, v)" by (cases p)
  show ?case
    unfolding p foldl_Cons Cons.IH step
    by (simp add: first_crossing_def)
qed

lemma thresholds_reach:
  "set (map (\<lambda>m. fst (snd m)) (reach t l y v ms)) \<subseteq> insert t (set (map (\<lambda>m. fst (snd m)) ms))"
  by (auto simp: reach_def)

lemma thresholds_step:
  "set (map (\<lambda>m. fst (snd m)) (milestone_step ms p)) \<subseteq>
     {50, 60, 70} \<union> set (map (\<lambda>m. fst (snd m)) ms)"
proof -
  obtain y v where p: "p = (y, v)" by (cases p)
  show ?thesis
    unfolding p milestone_step_def prod.case
    using thresholds_reach[of 70 "''NFIS-II target achieved''" y v
        "reach 60 ''Majority inclusion milestone'' y v
           (reach 50 ''Half of adults with accounts'' y v ms)"]
      thresholds_reach[of 60 "''Majority inclusion milestone''" y v
        "reach 50 ''Half of adults with accounts'' y v ms"]
      thresholds_reach[of 50 "''Half of adults with accounts''" y v ms]
    by blast
qed

lemma thresholds_foldl:
  "set (map (\<lambda>m. fst (snd m)) (foldl milestone_step ms series)) \<subseteq>
     {50, 60, 70} \<union> set (map (\<lambda>m. fst (snd m)) ms)"
proof (induction series arbitrary: ms)
  case Nil
  show ?case by auto
next
  case (Cons p series)
  show ?case
    using Cons.IH[of "milestone_step ms p"] thresholds_step[of ms p] by auto
qed

text \<open>
  C7, as stated, fails: the loop takes no list of thresholds. A series that first reaches
  40 in 2021 has that crossing by the specification's words, and the loop reports nothing.
\<close>

theorem milestones_other_threshold:
  "first_crossing (Fin 40) (zip [2021] [Fin 47]) = Some 2021 \<and>
   milestones [2021] [Fin 47] = []"
  by (simp add: first_crossing_def milestones_def milestone_step_def reach_def)

text \<open>
  C7, amended. For every sequence of years and values, and for each of the three fixed
  thresholds 50, 60 and 70, the loop reports the threshold exactly once, with the first
  year at which the value is at least the threshold, when the series reaches it, and not
  at all when it never does; a later dip below the threshold changes nothing. No other
  threshold is ever reported. For the series of the specification the result is the
  single milestone of 50 in 2025.
\<close>

theorem milestones_first_crossing:
  "reported 50 (milestones years projections) =
     (case first_crossing (Fin 50) (zip years projections) of
        None \<Rightarrow> [] | Some y \<Rightarrow> [(y, 50, ''Half of adults with accounts'')]) \<and>
   reported 60 (milestones years projections) =
     (case first_crossing (Fin 60) (zip years projections) of
        None \<Rightarrow> [] | Some y \<Rightarrow> [(y, 60, ''Majority inclusion milestone'')]) \<and>
   reported 70 (milestones years projections) =
     (case first_crossing (Fin 70) (zip years projections) of
        None \<Rightarrow> [] | Some y \<Rightarrow> [(y, 70, ''NFIS-II target achieved'')]) \<and>
   set (map (\<lambda>m. fst (snd m)) (milestones years projections)) \<subseteq> {50, 60, 70} \<and>
   milestones [2014, 2017, 2021, 2025, 2026, 2027]
     [Fin 22, Fin 35, Fin 47, Fin (542 / 10), Fin (568 / 10), Fin (594 / 10)] =
     [(2025, 50, ''Half of adults with accounts'')]"
proof -
  have a: "reported 50 (milestones years projections) =
     (case first_crossing (Fin 50) (zip years projections) of
        None \<Rightarrow> [] | Some y \<Rightarrow> [(y, 50, ''Half of adults with accounts'')])"
    using reported_foldl[of 50 "''Half of adults with accounts''" "[]" "zip years projections"]
      reported_step_50
    by (simp add: milestones_def reported_def)
  have b: "reported 60 (milestones years projections) =
     (case first_crossing (Fin 60) (zip years projections) of
        None \<Rightarrow> [] | Some y \<Rightarrow> [(y, 60, ''Majority inclusion milestone'')])"
    using reported_foldl[of 60 "''Majority inclusion milestone''" "[]" "zip years projections"]
      reported_step_60
    by (simp add: milestones_def reported_def)
  have c: "reported 70 (milestones years projections) =
     (case first_crossing (Fin 70) (zip years projections) of
        None \<Rightarrow> [] | Some y \<Rightarrow> [(y, 70, ''NFIS-II target achieved'')])"
    using reported_foldl[of 70 "''NFIS-II target achieved''" "[]" "zip years projections"]
      reported_step_70
    by (simp add: milestones_def reported_def)
  have d: "set (map (\<lambda>m. fst (snd m)) (milestones years projections)) \<subseteq> {50, 60, 70}"
    using thresholds_foldl[of "[]" "zip years projections"] by (simp add: milestones_def)
  have e: "milestones [2014, 2017, 2021, 2025, 2026, 2027]
     [Fin 22, Fin 35, Fin 47, Fin (542 / 10), Fin (568 / 10), Fin (594 / 10)] =
     [(2025, 50, ''Half of adults with accounts'')]"
    by (simp add: milestones_def milestone_step_def reach_def)
  from a b c d e show ?thesis by (intro conjI)
qed

section \<open>The record store of the specification\<close>

text \<open>
  Modelled from the spec: the record of section 3 of the specification (its field
  \<^verbatim>\<open>notes\<close> is \<open>notes_text\<close> here). The sources hold records only as rows of pandas
  frames; no record type is declared in them.
\<close>

record fi_record =
  record_id :: string
  record_type :: string
  category :: string
  pillar :: string
  indicator :: string
  indicator_code :: string
  observation_date :: "string option"
  value_numeric :: "rat option"
  gender :: string
  location :: string
  source_name :: string
  source_type :: string
  confidence :: string
  notes_text :: "string option"

text \<open>
  Modelled from the spec: the errors of the store (section 7). The sources define and
  raise no exception of their own.
\<close>

datatype store_error = DuplicateIdError | NotFoundError

text \<open>
  Modelled from the spec: the Record Store of section 4.1 and its operation \<^verbatim>\<open>add\<close>,
  which inserts a record and fails with \<^verbatim>\<open>DuplicateIdError\<close> when the identifier is
  already present, leaving the store unchanged. The sources contain no store and no
  operation that inserts a record. The store is the list of its records in insertion
  order; \<open>add\<close> returns the outcome of the call together with the store after it.
\<close>

type_synonym record_store = "fi_record list"

definition add :: "fi_record \<Rightarrow> record_store \<Rightarrow> (store_error + unit) \<times> record_store" where
  "add r store =
     (if record_id r \<in> set (map record_id store) then (Inl DuplicateIdError, store)
      else (Inr (), store @ [r]))"

definition example_record :: fi_record where
  "example_record =
     \<lparr>record_id = ''REC_0001'', record_type = ''observation'', category = ''access'',
      pillar = ''ACCESS'', indicator = ''Account Ownership'',
      indicator_code = ''ACC_OWNERSHIP'', observation_date = Some ''2014-12-31'',
      value_numeric = Some 22, gender = ''all'', location = ''national'',
      source_name = ''Global Findex'', source_type = ''survey'', confidence = ''high'',
      notes_text = None\<rparr>"

text \<open>
  C9. Adding a record whose identifier is already in the store fails with
  \<^verbatim>\<open>DuplicateIdError\<close> and the store after the call is the store before it, so its
  number of records is unchanged.
\<close>

theorem add_duplicate_id:
  assumes "record_id r \<in> set (map record_id store)"
  shows "add r store = (Inl DuplicateIdError, store) \<and>
         snd (add r store) = store \<and>
         length (snd (add r store)) = length store"
  using assms by (simp add: add_def)

theorem add_duplicate_id_witness:
  "add (example_record\<lparr>indicator := ''Mobile Money Accounts''\<rparr>) [example_record] =
     (Inl DuplicateIdError, [example_record]) \<and>
   length (snd (add (example_record\<lparr>indicator := ''Mobile Money Accounts''\<rparr>)
                  [example_record])) = 1"
  using add_duplicate_id[of "example_record\<lparr>indicator := ''Mobile Money Accounts''\<rparr>"
      "[example_record]"]
  by simp

end
